theory Spec2Isabelle
  imports Main "HOL-Library.Char_ord" "HOL-Library.List_Lexorder" "HOL-Library.Multiset"
begin

section \<open>The route table and the data access layer of the site backend\<close>

text \<open>
  The development embeds two source files: the router (\<^verbatim>\<open>registerRoutes\<close>, file
  \<^verbatim>\<open>src/unnamed/part_000\<close>) and the data access layer (\<^verbatim>\<open>DatabaseStorage\<close>, in
  \<^verbatim>\<open>src/index.ts\<close>). An asynchronous method becomes a function from the database to a
  result and a new database; a rejected promise becomes \<open>Inl\<close> of a store error, and every
  \<^verbatim>\<open>try/catch\<close> of a route is a case distinction on that sum.

  What the two files import and the repository does not show is modelled as little as
  the routes need:
  \<^item> the tables of \<^verbatim>\<open>@shared/schema\<close> are lists of records in insertion order, with the
    columns the spec's data model names; a query without \<^verbatim>\<open>orderBy\<close> returns the rows
    in that order, \<^verbatim>\<open>orderBy\<close> is a stable sort on the column;
  \<^item> ids are integers handed out by a per-table sequence; the id columns are 32-bit
    integer columns, and an update whose \<^verbatim>\<open>where\<close> binds a number outside their range to
    one of them fails; what the store requires of the \<open>dateId\<close> of a new slot (its
    range, a date it refers to), uniqueness constraints and a store that cannot be
    reached are not modelled;
  \<^item> a JavaScript number that may be \<^verbatim>\<open>NaN\<close> is an \<open>int option\<close>, a \<^verbatim>\<open>Date\<close> is its time
    value in milliseconds since the epoch (\<open>None\<close> for an invalid date), a field of a
    JSON body that may be \<^verbatim>\<open>undefined\<close> is an option.
\<close>

subsection \<open>JavaScript values\<close>

type_synonym date = int

type_synonym number = "int option"

text \<open>
  A string is the list of its code units, each below 256. \<^verbatim>\<open>parseInt(string)\<close> with no
  radix: leading white space is skipped (the tab, the line and form feeds, the carriage
  return, the space and the no-break space are the white space below 256), a sign is read,
  a \<^verbatim>\<open>0x\<close> prefix selects radix 16, and the longest prefix of digits is the value; with no
  digit the result is \<^verbatim>\<open>NaN\<close>. The value is a double: an integer of more than 53 bits is
  rounded to the nearest one with 53, ties to the even one. Beyond the doubles' range
  JavaScript has \<^verbatim>\<open>Infinity\<close>; here the rounded integer stands for it.
\<close>

definition isWhiteSpace :: "char \<Rightarrow> bool" where
  "isWhiteSpace c =
     (c \<in> set [CHR 0x09, CHR 0x0A, CHR 0x0B, CHR 0x0C, CHR 0x0D, CHR 0x20, CHR 0xA0])"

definition digitVal :: "char \<Rightarrow> nat option" where
  "digitVal c =
     (let n = (of_char c :: nat) in
      if 48 \<le> n \<and> n \<le> 57 then Some (n - 48)
      else if 97 \<le> n \<and> n \<le> 122 then Some (n - 87)
      else if 65 \<le> n \<and> n \<le> 90 then Some (n - 55)
      else None)"

definition radixDigit :: "nat \<Rightarrow> char \<Rightarrow> nat option" where
  "radixDigit r c =
     (case digitVal c of None \<Rightarrow> None | Some v \<Rightarrow> if v < r then Some v else None)"

fun leadingDigits :: "nat \<Rightarrow> string \<Rightarrow> nat list" where
  "leadingDigits r [] = []"
| "leadingDigits r (c # cs) =
     (case radixDigit r c of None \<Rightarrow> [] | Some v \<Rightarrow> v # leadingDigits r cs)"

definition stripSign :: "string \<Rightarrow> int \<times> string" where
  "stripSign s =
     (case s of
        [] \<Rightarrow> (1, [])
      | c # cs \<Rightarrow>
          if c = CHR ''-'' then (- 1, cs)
          else if c = CHR ''+'' then (1, cs)
          else (1, s))"

definition stripPrefix :: "string \<Rightarrow> nat \<times> string" where
  "stripPrefix s =
     (case s of
        c # x # cs \<Rightarrow>
          if c = CHR ''0'' \<and> (x = CHR ''x'' \<or> x = CHR ''X'') then (16, cs) else (10, s)
      | _ \<Rightarrow> (10, s))"

function bitLength :: "int \<Rightarrow> nat" where
  "bitLength n = (if n \<le> 0 then 0 else Suc (bitLength (n div 2)))"
  by pat_completeness auto
termination
  by (relation "measure nat") auto

definition roundToDouble :: "int \<Rightarrow> int" where
  "roundToDouble n =
     (let e = bitLength n - 53
      in if e = 0 then n
         else
           (let q = n div 2 ^ e; r = n mod 2 ^ e; half = 2 ^ (e - 1)
            in (if half < r \<or> (r = half \<and> odd q) then q + 1 else q) * 2 ^ e))"

definition parseInt :: "string \<Rightarrow> number" where
  "parseInt s =
     (let (sign, s1) = stripSign (dropWhile isWhiteSpace s);
          (radix, s2) = stripPrefix s1;
          ds = leadingDigits radix s2
      in if ds = [] then None
         else Some (sign * roundToDouble (foldl (\<lambda>a v. a * int radix + int v) 0 ds)))"

text \<open>
  \<^verbatim>\<open>Date.prototype.getMonth\<close> and \<^verbatim>\<open>setMonth\<close>, after the ECMAScript definitions
  (\<^verbatim>\<open>Day\<close>, \<^verbatim>\<open>TimeWithinDay\<close>, \<^verbatim>\<open>LocalTime\<close>, \<^verbatim>\<open>UTC\<close>, \<^verbatim>\<open>MakeDay\<close>, \<^verbatim>\<open>MakeDate\<close>,
  \<^verbatim>\<open>TimeClip\<close>). Months count from 0. The time zone of the process is the function
  \<^verbatim>\<open>LocalTZA\<close>: the offset of local time in milliseconds, at a UTC instant (flag true) or
  at a local clock reading (flag false). \<^verbatim>\<open>MakeDay\<close> carries a month beyond 11 into the
  year and a day beyond the month's end into the next month; \<^verbatim>\<open>TimeClip\<close> makes an invalid
  date (\<open>None\<close>) of an instant beyond the range of \<^verbatim>\<open>Date\<close>.
\<close>

type_synonym tza = "date \<Rightarrow> bool \<Rightarrow> int"

definition msPerDay :: int where
  "msPerDay = 86400000"

definition Day :: "date \<Rightarrow> int" where
  "Day t = t div msPerDay"

definition TimeWithinDay :: "date \<Rightarrow> int" where
  "TimeWithinDay t = t mod msPerDay"

text \<open>
  The day number of the first day of month \<open>m\<close> (from 0) of year \<open>y\<close>: the days to 1 March
  of the year that begins in March, and the days from there to the month.
\<close>

definition dayFromYearMonth :: "int \<Rightarrow> int \<Rightarrow> int" where
  "dayFromYearMonth y m =
     (let y' = (if m < 2 then y - 1 else y);
          mp = (if m < 2 then m + 10 else m - 2)
      in 365 * y' + y' div 4 - y' div 100 + y' div 400 + (153 * mp + 2) div 5 - 719468)"

text \<open>
  Year, month (from 0) and day of the month (from 1) of a day number: the day within its
  cycle of 400 years, its century, its cycle of four years and its year from March.
\<close>

definition civilFromDay :: "int \<Rightarrow> int \<times> int \<times> int" where
  "civilFromDay z0 =
     (let z = z0 + 719468;
          era = z div 146097;
          doe = z mod 146097;
          n100 = min 3 (doe div 36524);
          d2 = doe - 36524 * n100;
          n4 = d2 div 1461;
          d3 = d2 mod 1461;
          n1 = min 3 (d3 div 365);
          doy = d3 - 365 * n1;
          mp = (5 * doy + 2) div 153;
          d = doy - (153 * mp + 2) div 5 + 1;
          m = (if mp < 10 then mp + 2 else mp - 10);
          y = 400 * era + 100 * n100 + 4 * n4 + n1 + (if m < 2 then 1 else 0)
      in (y, m, d))"

definition YearFromTime :: "date \<Rightarrow> int" where
  "YearFromTime t = fst (civilFromDay (Day t))"

definition MonthFromTime :: "date \<Rightarrow> int" where
  "MonthFromTime t = fst (snd (civilFromDay (Day t)))"

definition DateFromTime :: "date \<Rightarrow> int" where
  "DateFromTime t = snd (snd (civilFromDay (Day t)))"

definition MakeDay :: "int \<Rightarrow> int \<Rightarrow> int \<Rightarrow> int" where
  "MakeDay year month dt = dayFromYearMonth (year + month div 12) (month mod 12) + dt - 1"

definition MakeDate :: "int \<Rightarrow> int \<Rightarrow> date" where
  "MakeDate day time = day * msPerDay + time"

definition LocalTime :: "tza \<Rightarrow> date \<Rightarrow> date" where
  "LocalTime tz t = t + tz t True"

definition UTC :: "tza \<Rightarrow> date \<Rightarrow> date" where
  "UTC tz t = t - tz t False"

definition TimeClip :: "date \<Rightarrow> date option" where
  "TimeClip t = (if \<bar>t\<bar> \<le> 8640000000000000 then Some t else None)"

definition getMonth :: "tza \<Rightarrow> date \<Rightarrow> int" where
  "getMonth tz t = MonthFromTime (LocalTime tz t)"

definition setMonth :: "tza \<Rightarrow> date \<Rightarrow> int \<Rightarrow> date option" where
  "setMonth tz t month =
     (let lt = LocalTime tz t
      in TimeClip (UTC tz (MakeDate (MakeDay (YearFromTime lt) month (DateFromTime lt))
                            (TimeWithinDay lt))))"

subsection \<open>The calendar\<close>

text \<open>
  The calendar by its rules, against which the date arithmetic above is proved; nothing
  here is used by a route. A year is a leap year when 4 divides it, unless 100 divides it
  and 400 does not. \<open>cal_year_start\<close> is the day number of 1 January (day 0 is 1 January
  1970): it is 0 for 1970 and grows by the length of each year, as \<open>year_start_step\<close>
  shows. \<open>cal_day y m d\<close> is the day number of the \<open>d\<close>-th day counted from the first of
  month \<open>m\<close> (from 0) of year \<open>y\<close>, and \<open>cal_date z y m d\<close> says that day \<open>z\<close> is the
  \<open>d\<close>-th of that month, a day the month has.
\<close>

definition cal_leap_year :: "int \<Rightarrow> bool" where
  "cal_leap_year y = (if 100 dvd y then 400 dvd y else 4 dvd y)"

definition cal_month_lengths :: "int \<Rightarrow> int list" where
  "cal_month_lengths y =
     [31, if cal_leap_year y then 29 else 28, 31, 30, 31, 30, 31, 31, 30, 31, 30, 31]"

definition cal_year_start :: "int \<Rightarrow> int" where
  "cal_year_start y =
     365 * (y - 1970) + (y - 1969) div 4 - (y - 1901) div 100 + (y - 1601) div 400"

definition cal_day :: "int \<Rightarrow> int \<Rightarrow> int \<Rightarrow> int" where
  "cal_day y m d = cal_year_start y + sum_list (take (nat m) (cal_month_lengths y)) + d - 1"

definition cal_date :: "int \<Rightarrow> int \<Rightarrow> int \<Rightarrow> int \<Rightarrow> bool" where
  "cal_date z y m d =
     (0 \<le> m \<and> m < 12 \<and> 1 \<le> d \<and> d \<le> cal_month_lengths y ! nat m \<and> cal_day y m d = z)"

text \<open>
  Three months after the \<open>d\<close>-th of month \<open>m\<close> of year \<open>y\<close>, \<open>ms\<close> milliseconds into the
  day: the same time of day on the \<open>d\<close>-th day counted from the first of the third month
  after \<open>m\<close>, which is in the next year when \<open>m\<close> is October or later, and which runs on
  into the month after when that month has fewer than \<open>d\<close> days.
\<close>

definition cal_three_months_on :: "int \<Rightarrow> int \<Rightarrow> int \<Rightarrow> int \<Rightarrow> int" where
  "cal_three_months_on y m d ms =
     cal_day (if m < 9 then y else y + 1) (if m < 9 then m + 3 else m - 9) d * 86400000 + ms"

text \<open>Auxiliary notions of the proofs about the calendar.\<close>

definition march :: "int \<Rightarrow> int" where
  "march y = 365 * y + y div 4 - y div 100 + y div 400 - 719468"

definition march_lengths :: "int list" where
  "march_lengths = [31, 30, 31, 30, 31, 31, 30, 31, 30, 31, 31, 29]"

definition doy_ok :: "int \<Rightarrow> bool" where
  "doy_ok doy =
     (let mp = (5 * doy + 2) div 153; d = doy - (153 * mp + 2) div 5 + 1
      in 0 \<le> mp \<and> mp \<le> 11 \<and> 1 \<le> d \<and> d \<le> march_lengths ! nat mp
         \<and> (if mp = 11 \<and> d = 29 then doy = 365 else True))"

subsection \<open>Tables\<close>

text \<open>
  Modelled from the spec: the table declarations of \<^verbatim>\<open>@shared/schema\<close> are not among the
  sources. The columns are those of the spec's data model (section 3) and those the
  queries of \<^verbatim>\<open>DatabaseStorage\<close> select. A review's \<open>status\<close> is a string, as in the
  signature of \<^verbatim>\<open>updateReview\<close>; its default on insert is \<^verbatim>\<open>pending\<close> (spec 4.4), and
  \<open>author\<close> and \<open>content\<close> are required. The store assigns ids and the two timestamps
  of a new row. A calendar date's \<open>date\<close> is an instant and is compared as such; the
  times of a slot are strings such as \<^verbatim>\<open>09:00\<close>, ordered as strings.
\<close>

record review =
  review_id :: int
  author :: string
  content :: string
  modifiedContent :: "string option"
  status :: string
  review_createdAt :: date
  review_updatedAt :: date

record faq =
  faq_id :: int
  categoryId :: "int option"
  question :: string
  answer :: string
  order :: int

record gallery =
  gallery_id :: int
  accessCode :: string

record photo =
  photo_id :: int
  galleryId :: int
  url :: string

record availabilityDate =
  date_id :: int
  date :: date
  date_isAvailable :: bool
  date_createdAt :: date
  date_updatedAt :: date

record availabilityTimeSlot =
  slot_id :: int
  dateId :: int
  startTime :: string
  endTime :: string
  slot_isAvailable :: bool
  slot_createdAt :: date
  slot_updatedAt :: date

text \<open>
  The store handle \<^verbatim>\<open>db\<close> of \<^verbatim>\<open>./db\<close>: the tables, their id sequences, and one trait of
  the driver behind it that the sources do not fix. \<open>rejects_NaN\<close> says what becomes of a
  \<^verbatim>\<open>NaN\<close> bound to an id column in a \<^verbatim>\<open>where\<close>: the driver refuses it and the statement fails
  (PostgreSQL, for an integer column), or it passes as a value that equals no id. No
  operation changes it.
\<close>

record db =
  rejects_NaN :: bool
  reviews :: "review list"
  reviews_seq :: int
  faqs :: "faq list"
  galleries :: "gallery list"
  photos :: "photo list"
  availabilityDates :: "availabilityDate list"
  availabilityDates_seq :: int
  availabilityTimeSlots :: "availabilityTimeSlot list"
  availabilityTimeSlots_seq :: int

datatype store_error = StoreError

text \<open>
  The values the routes hand to the store. \<^verbatim>\<open>InsertReview\<close> is the request body as it
  comes (\<^verbatim>\<open>req.body as InsertReview\<close> is a cast, nothing is checked or removed), so it
  carries the columns a client may name; a field left out is \<open>None\<close>. The id and the two
  timestamps are always the store's own.
\<close>

record InsertReview =
  ins_author :: "string option"
  ins_content :: "string option"
  ins_status :: "string option"
  ins_modifiedContent :: "string option"

record ReviewUpdate =
  upd_status :: "string option"
  upd_modifiedContent :: "string option"

record InsertAvailabilityDate =
  ins_date :: "date option"
  ins_date_isAvailable :: bool

record InsertAvailabilityTimeSlot =
  ins_dateId :: number
  ins_startTime :: "string option"
  ins_endTime :: "string option"
  ins_slot_isAvailable :: bool

record GalleryWithPhotos =
  gwp_id :: int
  gwp_accessCode :: string
  gwp_photos :: "(int \<times> string) list"

record AdminStats =
  faqCount :: nat
  galleryCount :: nat
  pendingReviewsCount :: nat

subsection \<open>DatabaseStorage\<close>

text \<open>
  \<^verbatim>\<open>eq(column, value)\<close> on an id column, where the value is a JavaScript number: a
  \<^verbatim>\<open>NaN\<close> that the driver lets through equals no id.
\<close>

definition eq_id :: "int \<Rightarrow> number \<Rightarrow> bool" where
  "eq_id col v = (v = Some col)"

text \<open>
  The store is PostgreSQL (\<^verbatim>\<open>connect-pg-simple\<close>, \<^verbatim>\<open>returning()\<close>) and the id columns
  are \<^verbatim>\<open>integer\<close> columns: a number is a value of the column when it lies in the 32-bit
  range. The tables here are lists of records whose ids are
  not bounded by their type, so an id that is stored counts as a value of its column all
  the same: a row that exists can always be addressed. The statement that binds anything
  else to the column fails: a number that is no value of the column and, with a driver
  that refuses it, \<^verbatim>\<open>NaN\<close>.
\<close>

definition id_value :: "int list \<Rightarrow> int \<Rightarrow> bool" where
  "id_value stored n = (n \<in> set stored \<or> (- 2147483648 \<le> n \<and> n \<le> 2147483647))"

definition id_refused :: "bool \<Rightarrow> int list \<Rightarrow> number \<Rightarrow> bool" where
  "id_refused strict stored v =
     (case v of None \<Rightarrow> strict | Some n \<Rightarrow> \<not> id_value stored n)"

text \<open>The destructuring \<^verbatim>\<open>const [row] = await ...\<close>: the first row, or \<^verbatim>\<open>undefined\<close>.\<close>

definition first_row :: "'a list \<Rightarrow> 'a option" where
  "first_row rows = (case rows of [] \<Rightarrow> None | r # _ \<Rightarrow> Some r)"

definition getPhotosByGalleryId :: "int \<Rightarrow> db \<Rightarrow> store_error + photo list" where
  "getPhotosByGalleryId gid d = Inr (filter (\<lambda>p. galleryId p = gid) (photos d))"

definition getGalleryByAccessCode :: "string \<Rightarrow> db \<Rightarrow> store_error + GalleryWithPhotos option" where
  "getGalleryByAccessCode code d =
     (case first_row (filter (\<lambda>g. accessCode g = code) (galleries d)) of
        None \<Rightarrow> Inr None
      | Some g \<Rightarrow>
          Inr (Some \<lparr> gwp_id = gallery_id g, gwp_accessCode = accessCode g,
                      gwp_photos = map (\<lambda>p. (photo_id p, url p))
                        (filter (\<lambda>p. galleryId p = gallery_id g) (photos d)) \<rparr>))"

text \<open>
  \<^verbatim>\<open>createReview\<close>: the insert takes each column from the value it is given and the
  column's default where the value has none; a required column without a value is
  rejected by the store.
\<close>

definition createReview :: "date \<Rightarrow> InsertReview \<Rightarrow> db \<Rightarrow> store_error + review \<times> db" where
  "createReview now r d =
     (case (ins_author r, ins_content r) of
        (Some a, Some c) \<Rightarrow>
          (let newReview =
                 \<lparr> review_id = reviews_seq d, author = a, content = c,
                   modifiedContent = ins_modifiedContent r,
                   status = (case ins_status r of None \<Rightarrow> ''pending'' | Some s \<Rightarrow> s),
                   review_createdAt = now, review_updatedAt = now \<rparr>
           in Inr (newReview,
                   d\<lparr> reviews := reviews d @ [newReview], reviews_seq := reviews_seq d + 1 \<rparr>))
      | _ \<Rightarrow> Inl StoreError)"

definition getApprovedReviews :: "db \<Rightarrow> store_error + review list" where
  "getApprovedReviews d = Inr (filter (\<lambda>r. status r = ''approved'') (reviews d))"

definition getPendingReviews :: "db \<Rightarrow> store_error + review list" where
  "getPendingReviews d = Inr (filter (\<lambda>r. status r = ''pending'') (reviews d))"

text \<open>
  \<^verbatim>\<open>updateReview\<close>: \<^verbatim>\<open>set\<close> leaves a column alone when its value is \<^verbatim>\<open>undefined\<close>;
  \<^verbatim>\<open>returning\<close> gives the rows updated, and the method returns the first of them or
  \<^verbatim>\<open>undefined\<close>.
\<close>

definition set_review :: "ReviewUpdate \<Rightarrow> date \<Rightarrow> review \<Rightarrow> review" where
  "set_review u now r =
     r\<lparr> status := (case upd_status u of None \<Rightarrow> status r | Some s \<Rightarrow> s),
        modifiedContent :=
          (case upd_modifiedContent u of None \<Rightarrow> modifiedContent r | Some m \<Rightarrow> Some m),
        review_updatedAt := now \<rparr>"

definition updateReview ::
  "date \<Rightarrow> number \<Rightarrow> ReviewUpdate \<Rightarrow> db \<Rightarrow> store_error + review option \<times> db" where
  "updateReview now i u d =
     (if id_refused (rejects_NaN d) (map review_id (reviews d)) i then Inl StoreError
      else
        Inr (first_row (map (set_review u now) (filter (\<lambda>r. eq_id (review_id r) i) (reviews d))),
             d\<lparr> reviews :=
                  map (\<lambda>r. if eq_id (review_id r) i then set_review u now r else r)
                    (reviews d) \<rparr>))"

text \<open>\<^verbatim>\<open>createAvailabilityDate\<close>: an invalid \<^verbatim>\<open>Date\<close> cannot be written, the insert throws.\<close>

definition createAvailabilityDate ::
  "date \<Rightarrow> InsertAvailabilityDate \<Rightarrow> db \<Rightarrow> store_error + availabilityDate \<times> db" where
  "createAvailabilityDate now v d =
     (case ins_date v of
        None \<Rightarrow> Inl StoreError
      | Some dt \<Rightarrow>
          (let newDate =
                 \<lparr> date_id = availabilityDates_seq d, date = dt,
                   date_isAvailable = ins_date_isAvailable v,
                   date_createdAt = now, date_updatedAt = now \<rparr>
           in Inr (newDate,
                   d\<lparr> availabilityDates := availabilityDates d @ [newDate],
                      availabilityDates_seq := availabilityDates_seq d + 1 \<rparr>)))"

definition set_date :: "bool option \<Rightarrow> date \<Rightarrow> availabilityDate \<Rightarrow> availabilityDate" where
  "set_date isAvailable now r =
     r\<lparr> date_isAvailable := (case isAvailable of None \<Rightarrow> date_isAvailable r | Some b \<Rightarrow> b),
        date_updatedAt := now \<rparr>"

definition updateAvailabilityDate ::
  "date \<Rightarrow> number \<Rightarrow> bool option \<Rightarrow> db \<Rightarrow> store_error + availabilityDate option \<times> db" where
  "updateAvailabilityDate now i isAvailable d =
     (if id_refused (rejects_NaN d) (map date_id (availabilityDates d)) i then Inl StoreError
      else
        Inr (first_row (map (set_date isAvailable now)
               (filter (\<lambda>r. eq_id (date_id r) i) (availabilityDates d))),
             d\<lparr> availabilityDates :=
                  map (\<lambda>r. if eq_id (date_id r) i then set_date isAvailable now r else r)
                    (availabilityDates d) \<rparr>))"

definition getAvailabilityTimeSlots :: "int \<Rightarrow> db \<Rightarrow> store_error + availabilityTimeSlot list" where
  "getAvailabilityTimeSlots did d =
     Inr (sort_key startTime (filter (\<lambda>s. dateId s = did) (availabilityTimeSlots d)))"

text \<open>
  \<^verbatim>\<open>Promise.all\<close>: the results in the order of the promises, or the first rejection.
  The two bounds of \<^verbatim>\<open>getAvailabilityDates\<close> are \<^verbatim>\<open>Date\<close> objects; an invalid one cannot be
  made a parameter of the query, and the method throws.
\<close>

fun Promise_all :: "('e + 'a) list \<Rightarrow> 'e + 'a list" where
  "Promise_all [] = Inr []"
| "Promise_all (p # ps) =
     (case p of
        Inl e \<Rightarrow> Inl e
      | Inr x \<Rightarrow> (case Promise_all ps of Inl e \<Rightarrow> Inl e | Inr xs \<Rightarrow> Inr (x # xs)))"

definition getAvailabilityDates ::
  "date option \<Rightarrow> date option \<Rightarrow> db \<Rightarrow>
     store_error + (availabilityDate \<times> availabilityTimeSlot list) list" where
  "getAvailabilityDates startDate endDate d =
     (case (startDate, endDate) of
        (Some s, Some t) \<Rightarrow>
          (let dates = sort_key date
                 (filter (\<lambda>r. s \<le> date r \<and> date r \<le> t) (availabilityDates d))
           in Promise_all
                (map (\<lambda>dt. case getAvailabilityTimeSlots (date_id dt) d of
                              Inl e \<Rightarrow> Inl e
                            | Inr timeSlots \<Rightarrow> Inr (dt, timeSlots)) dates))
      | _ \<Rightarrow> Inl StoreError)"

text \<open>
  \<^verbatim>\<open>createAvailabilityTimeSlot\<close>: \<open>dateId\<close> and the two times are required, and a \<^verbatim>\<open>NaN\<close> is
  no value for \<open>dateId\<close> with either kind of driver. Whether the store takes a given
  number as a \<open>dateId\<close> is left to the absent schema: here the insert of a number
  succeeds.
\<close>

definition createAvailabilityTimeSlot ::
  "date \<Rightarrow> InsertAvailabilityTimeSlot \<Rightarrow> db \<Rightarrow> store_error + availabilityTimeSlot \<times> db" where
  "createAvailabilityTimeSlot now v d =
     (case (ins_dateId v, ins_startTime v, ins_endTime v) of
        (Some did, Some st, Some en) \<Rightarrow>
          (let newSlot =
                 \<lparr> slot_id = availabilityTimeSlots_seq d, dateId = did, startTime = st,
                   endTime = en, slot_isAvailable = ins_slot_isAvailable v,
                   slot_createdAt = now, slot_updatedAt = now \<rparr>
           in Inr (newSlot,
                   d\<lparr> availabilityTimeSlots := availabilityTimeSlots d @ [newSlot],
                      availabilityTimeSlots_seq := availabilityTimeSlots_seq d + 1 \<rparr>))
      | _ \<Rightarrow> Inl StoreError)"

definition set_slot :: "bool option \<Rightarrow> date \<Rightarrow> availabilityTimeSlot \<Rightarrow> availabilityTimeSlot" where
  "set_slot isAvailable now r =
     r\<lparr> slot_isAvailable := (case isAvailable of None \<Rightarrow> slot_isAvailable r | Some b \<Rightarrow> b),
        slot_updatedAt := now \<rparr>"

definition updateAvailabilityTimeSlot ::
  "date \<Rightarrow> number \<Rightarrow> bool option \<Rightarrow> db \<Rightarrow> store_error + availabilityTimeSlot option \<times> db" where
  "updateAvailabilityTimeSlot now i isAvailable d =
     (if id_refused (rejects_NaN d) (map slot_id (availabilityTimeSlots d)) i
      then Inl StoreError
      else
        Inr (first_row (map (set_slot isAvailable now)
               (filter (\<lambda>r. eq_id (slot_id r) i) (availabilityTimeSlots d))),
             d\<lparr> availabilityTimeSlots :=
                  map (\<lambda>r. if eq_id (slot_id r) i then set_slot isAvailable now r else r)
                    (availabilityTimeSlots d) \<rparr>))"

definition getAdminStats :: "db \<Rightarrow> store_error + AdminStats" where
  "getAdminStats d =
     Inr \<lparr> faqCount = length (faqs d), galleryCount = length (galleries d),
           pendingReviewsCount = length (filter (\<lambda>r. status r = ''pending'') (reviews d)) \<rparr>"

subsection \<open>Requests and responses\<close>

text \<open>
  The fields of \<^verbatim>\<open>req.body\<close> that the routes read, each absent (\<^verbatim>\<open>undefined\<close>) or of
  the type the route expects, and the two path parameters. \<open>adminSession\<close> is what the
  session of the request resolves to: the identity of an authenticated admin, or nothing.
\<close>

record body =
  body_author :: "string option"
  body_content :: "string option"
  body_status :: "string option"
  body_modifiedContent :: "string option"
  body_date :: "string option"
  body_isAvailable :: "bool option"
  body_startTime :: "string option"
  body_endTime :: "string option"

record request =
  adminSession :: "int option"
  params_id :: string
  params_code :: string
  req_body :: body

text \<open>
  The error messages of the routes, by their words: \<^verbatim>\<open>{ error: '...' }\<close>.
  \<open>Unauthorized\<close> is the body of the gate's refusal.
\<close>

datatype message =
    Errore_nel_recupero_delle_recensioni
  | Errore_nella_creazione_della_recensione
  | Errore_nel_recupero_delle_statistiche
  | Errore_nel_recupero_delle_recensioni_in_attesa
  | Recensione_non_trovata
  | Errore_nell_aggiornamento_della_recensione
  | Errore_nel_recupero_delle_disponibilita
  | Errore_nella_creazione_della_disponibilita
  | Errore_nell_aggiornamento_della_disponibilita
  | Errore_nella_creazione_dello_slot_orario
  | Errore_nell_aggiornamento_dello_slot_orario
  | Galleria_non_trovata
  | Errore_del_server
  | Unauthorized

record GalleryResponse =
  res_id :: int
  res_accessCode :: string
  res_photos :: "photo list"

text \<open>What \<^verbatim>\<open>res.json\<close> is given; \<open>Undefined\<close> is \<^verbatim>\<open>res.json(undefined)\<close>, an empty body.\<close>

datatype payload =
    ReviewsJson "review list"
  | ReviewJson review
  | StatsJson AdminStats
  | AvailabilityJson "(availabilityDate \<times> availabilityTimeSlot list) list"
  | DateJson availabilityDate
  | SlotJson availabilityTimeSlot
  | GalleryJson GalleryResponse
  | ErrorJson message
  | Undefined

record response =
  statusCode :: nat
  json :: payload

text \<open>
  The clock reading of a request (\<^verbatim>\<open>new Date()\<close>), the runtime's \<^verbatim>\<open>Date.parse\<close>, whose
  recognition of formats is the implementation's own (\<open>None\<close> is an invalid date), and
  the time zone of the process.
\<close>

record env =
  now :: date
  Date_parse :: "string \<Rightarrow> date option"
  LocalTZA :: tza

type_synonym handler = "env \<Rightarrow> request \<Rightarrow> db \<Rightarrow> response \<times> db"

definition new_Date :: "env \<Rightarrow> string option \<Rightarrow> date option" where
  "new_Date e v = (case v of None \<Rightarrow> None | Some s \<Rightarrow> Date_parse e s)"

subsection \<open>The authorization gate\<close>

text \<open>
  Modelled from the spec: \<^verbatim>\<open>setupAuth\<close> and the \<^verbatim>\<open>requireAdmin\<close> middleware it returns
  are in \<^verbatim>\<open>./auth\<close>, which is not among the sources. Spec 4.1: the gate determines whether
  the session identifies an authenticated admin; if not, the operation fails with an
  Unauthorized error and the underlying handler never executes; if yes, the request
  proceeds. Spec 7 gives the status: 401.
\<close>

definition requireAdmin :: "handler \<Rightarrow> handler" where
  "requireAdmin next e req d =
     (case adminSession req of
        None \<Rightarrow> (\<lparr> statusCode = 401, json = ErrorJson Unauthorized \<rparr>, d)
      | Some admin \<Rightarrow> next e req d)"

subsection \<open>The routes\<close>

definition get_api_reviews :: handler where
  "get_api_reviews e req d =
     (case getApprovedReviews d of
        Inl err \<Rightarrow> (\<lparr> statusCode = 500, json = ErrorJson Errore_nel_recupero_delle_recensioni \<rparr>, d)
      | Inr rs \<Rightarrow> (\<lparr> statusCode = 200, json = ReviewsJson rs \<rparr>, d))"

definition post_api_reviews :: handler where
  "post_api_reviews e req d =
     (let b = req_body req;
          reviewData = \<lparr> ins_author = body_author b, ins_content = body_content b,
                         ins_status = body_status b,
                         ins_modifiedContent = body_modifiedContent b \<rparr>
      in case createReview (now e) reviewData d of
           Inl err \<Rightarrow>
             (\<lparr> statusCode = 500, json = ErrorJson Errore_nella_creazione_della_recensione \<rparr>, d)
         | Inr (rv, d') \<Rightarrow> (\<lparr> statusCode = 201, json = ReviewJson rv \<rparr>, d'))"

definition get_api_admin_stats :: handler where
  "get_api_admin_stats e req d =
     (case getAdminStats d of
        Inl err \<Rightarrow> (\<lparr> statusCode = 500, json = ErrorJson Errore_nel_recupero_delle_statistiche \<rparr>, d)
      | Inr stats \<Rightarrow> (\<lparr> statusCode = 200, json = StatsJson stats \<rparr>, d))"

definition get_api_reviews_pending :: handler where
  "get_api_reviews_pending e req d =
     (case getPendingReviews d of
        Inl err \<Rightarrow>
          (\<lparr> statusCode = 500, json = ErrorJson Errore_nel_recupero_delle_recensioni_in_attesa \<rparr>, d)
      | Inr rs \<Rightarrow> (\<lparr> statusCode = 200, json = ReviewsJson rs \<rparr>, d))"

definition patch_api_reviews_id :: handler where
  "patch_api_reviews_id e req d =
     (let b = req_body req
      in case updateReview (now e) (parseInt (params_id req))
                \<lparr> upd_status = body_status b, upd_modifiedContent = body_modifiedContent b \<rparr> d of
           Inl err \<Rightarrow>
             (\<lparr> statusCode = 500, json = ErrorJson Errore_nell_aggiornamento_della_recensione \<rparr>, d)
         | Inr (None, d') \<Rightarrow> (\<lparr> statusCode = 404, json = ErrorJson Recensione_non_trovata \<rparr>, d')
         | Inr (Some rv, d') \<Rightarrow> (\<lparr> statusCode = 200, json = ReviewJson rv \<rparr>, d'))"

text \<open>The two \<^verbatim>\<open>new Date()\<close> of the next route read the clock at the same instant.\<close>

definition get_api_availability :: handler where
  "get_api_availability e req d =
     (let startDate = Some (now e);
          endDate = setMonth (LocalTZA e) (now e) (getMonth (LocalTZA e) (now e) + 3)
      in case getAvailabilityDates startDate endDate d of
           Inl err \<Rightarrow>
             (\<lparr> statusCode = 500, json = ErrorJson Errore_nel_recupero_delle_disponibilita \<rparr>, d)
         | Inr dates \<Rightarrow> (\<lparr> statusCode = 200, json = AvailabilityJson dates \<rparr>, d))"

definition post_api_availability :: handler where
  "post_api_availability e req d =
     (let dateData = \<lparr> ins_date = new_Date e (body_date (req_body req)),
                       ins_date_isAvailable = True \<rparr>
      in case createAvailabilityDate (now e) dateData d of
           Inl err \<Rightarrow>
             (\<lparr> statusCode = 500, json = ErrorJson Errore_nella_creazione_della_disponibilita \<rparr>, d)
         | Inr (createdDate, d') \<Rightarrow> (\<lparr> statusCode = 201, json = DateJson createdDate \<rparr>, d'))"

definition patch_api_availability_id :: handler where
  "patch_api_availability_id e req d =
     (case updateAvailabilityDate (now e) (parseInt (params_id req))
             (body_isAvailable (req_body req)) d of
        Inl err \<Rightarrow>
          (\<lparr> statusCode = 500, json = ErrorJson Errore_nell_aggiornamento_della_disponibilita \<rparr>, d)
      | Inr (dt, d') \<Rightarrow>
          (\<lparr> statusCode = 200, json = (case dt of None \<Rightarrow> Undefined | Some r \<Rightarrow> DateJson r) \<rparr>, d'))"

definition post_api_availability_id_timeslots :: handler where
  "post_api_availability_id_timeslots e req d =
     (let b = req_body req;
          slotData = \<lparr> ins_dateId = parseInt (params_id req),
                       ins_startTime = body_startTime b, ins_endTime = body_endTime b,
                       ins_slot_isAvailable =
                         (case body_isAvailable b of None \<Rightarrow> True | Some v \<Rightarrow> v) \<rparr>
      in case createAvailabilityTimeSlot (now e) slotData d of
           Inl err \<Rightarrow>
             (\<lparr> statusCode = 500, json = ErrorJson Errore_nella_creazione_dello_slot_orario \<rparr>, d)
         | Inr (slot, d') \<Rightarrow> (\<lparr> statusCode = 201, json = SlotJson slot \<rparr>, d'))"

definition patch_api_availability_timeslots_id :: handler where
  "patch_api_availability_timeslots_id e req d =
     (case updateAvailabilityTimeSlot (now e) (parseInt (params_id req))
             (body_isAvailable (req_body req)) d of
        Inl err \<Rightarrow>
          (\<lparr> statusCode = 500, json = ErrorJson Errore_nell_aggiornamento_dello_slot_orario \<rparr>, d)
      | Inr (slot, d') \<Rightarrow>
          (\<lparr> statusCode = 200, json = (case slot of None \<Rightarrow> Undefined | Some r \<Rightarrow> SlotJson r) \<rparr>, d'))"

definition get_api_galleries_access_code :: handler where
  "get_api_galleries_access_code e req d =
     (case getGalleryByAccessCode (params_code req) d of
        Inl err \<Rightarrow> (\<lparr> statusCode = 500, json = ErrorJson Errore_del_server \<rparr>, d)
      | Inr None \<Rightarrow> (\<lparr> statusCode = 404, json = ErrorJson Galleria_non_trovata \<rparr>, d)
      | Inr (Some g) \<Rightarrow>
          (case getPhotosByGalleryId (gwp_id g) d of
             Inl err \<Rightarrow> (\<lparr> statusCode = 500, json = ErrorJson Errore_del_server \<rparr>, d)
           | Inr ps \<Rightarrow>
               (\<lparr> statusCode = 200,
                  json = GalleryJson \<lparr> res_id = gwp_id g, res_accessCode = gwp_accessCode g,
                                        res_photos = ps \<rparr> \<rparr>, d)))"

text \<open>
  \<^verbatim>\<open>registerRoutes\<close>: each registered verb and path with its chain of middleware, in the
  order of the source.
\<close>

datatype route =
    GET_api_reviews
  | POST_api_reviews
  | GET_api_admin_stats
  | GET_api_reviews_pending
  | PATCH_api_reviews_id
  | GET_api_availability
  | POST_api_availability
  | PATCH_api_availability_id
  | POST_api_availability_id_timeslots
  | PATCH_api_availability_timeslots_id
  | GET_api_galleries_access_code

fun registerRoutes :: "route \<Rightarrow> handler" where
  "registerRoutes GET_api_reviews = get_api_reviews"
| "registerRoutes POST_api_reviews = post_api_reviews"
| "registerRoutes GET_api_admin_stats = requireAdmin get_api_admin_stats"
| "registerRoutes GET_api_reviews_pending = requireAdmin get_api_reviews_pending"
| "registerRoutes PATCH_api_reviews_id = requireAdmin patch_api_reviews_id"
| "registerRoutes GET_api_availability = get_api_availability"
| "registerRoutes POST_api_availability = requireAdmin post_api_availability"
| "registerRoutes PATCH_api_availability_id = requireAdmin patch_api_availability_id"
| "registerRoutes POST_api_availability_id_timeslots =
     requireAdmin post_api_availability_id_timeslots"
| "registerRoutes PATCH_api_availability_timeslots_id =
     requireAdmin patch_api_availability_timeslots_id"
| "registerRoutes GET_api_galleries_access_code = get_api_galleries_access_code"

text \<open>The admin-only routes: those registered behind \<^verbatim>\<open>requireAdmin\<close>.\<close>

definition admin_routes :: "route list" where
  "admin_routes =
     [GET_api_admin_stats, GET_api_reviews_pending, PATCH_api_reviews_id,
      POST_api_availability, PATCH_api_availability_id,
      POST_api_availability_id_timeslots, PATCH_api_availability_timeslots_id]"

subsection \<open>The availability window, by the calendar\<close>

text \<open>
  The end of the window as the spec words it, three months after now: \<open>local_day_now\<close>
  is the day that the local clock shows at the clock reading of the request, and, when
  that day is the \<open>d\<close>-th of month \<open>m\<close> of year \<open>y\<close>, \<open>three_months_after_now\<close> is the
  instant at which the local clock shows the same time of day three months on. Neither is
  used by a route.
\<close>

definition local_day_now :: "env \<Rightarrow> int" where
  "local_day_now e = (now e + LocalTZA e (now e) True) div 86400000"

definition three_months_after_now :: "env \<Rightarrow> int \<Rightarrow> int \<Rightarrow> int \<Rightarrow> date" where
  "three_months_after_now e y m d =
     cal_three_months_on y m d ((now e + LocalTZA e (now e) True) mod 86400000)
     - LocalTZA e
         (cal_three_months_on y m d ((now e + LocalTZA e (now e) True) mod 86400000)) False"

subsection \<open>A sample database and sample requests\<close>

text \<open>
  A store whose driver refuses \<^verbatim>\<open>NaN\<close>, with three reviews (one per status), two galleries and three photos, four
  calendar dates (one before and one after the window that opens on 1 June 2025,
  10:00 UTC) and three time slots; the results below are evaluated on it. The sample
  clock runs two hours ahead of UTC.
\<close>

definition sample_reviews :: "review list" where
  "sample_reviews =
     [\<lparr> review_id = 1, author = ''Anna'', content = ''Splendide foto'', modifiedContent = None,
        status = ''approved'', review_createdAt = 1747699200000,
        review_updatedAt = 1747785600000 \<rparr>,
      \<lparr> review_id = 2, author = ''Bruno'', content = ''Molto bravo'', modifiedContent = None,
        status = ''pending'', review_createdAt = 1747785600000,
        review_updatedAt = 1747785600000 \<rparr>,
      \<lparr> review_id = 3, author = ''Carla'', content = ''Spam'', modifiedContent = None,
        status = ''rejected'', review_createdAt = 1747785600000,
        review_updatedAt = 1747785600000 \<rparr>]"

definition sample_dates :: "availabilityDate list" where
  "sample_dates =
     [\<lparr> date_id = 1, date = 1752105600000, date_isAvailable = True,
        date_createdAt = 1747699200000, date_updatedAt = 1747699200000 \<rparr>,
      \<lparr> date_id = 2, date = 1749945600000, date_isAvailable = True,
        date_createdAt = 1747699200000, date_updatedAt = 1747699200000 \<rparr>,
      \<lparr> date_id = 3, date = 1735689600000, date_isAvailable = True,
        date_createdAt = 1747699200000, date_updatedAt = 1747699200000 \<rparr>,
      \<lparr> date_id = 4, date = 1766620800000, date_isAvailable = False,
        date_createdAt = 1747699200000, date_updatedAt = 1747699200000 \<rparr>]"

definition sample_slots :: "availabilityTimeSlot list" where
  "sample_slots =
     [\<lparr> slot_id = 1, dateId = 1, startTime = ''14:00'', endTime = ''15:00'',
        slot_isAvailable = True, slot_createdAt = 1747699200000,
        slot_updatedAt = 1747699200000 \<rparr>,
      \<lparr> slot_id = 2, dateId = 1, startTime = ''09:00'', endTime = ''10:00'',
        slot_isAvailable = True, slot_createdAt = 1747699200000,
        slot_updatedAt = 1747699200000 \<rparr>,
      \<lparr> slot_id = 3, dateId = 2, startTime = ''10:00'', endTime = ''11:00'',
        slot_isAvailable = False, slot_createdAt = 1747699200000,
        slot_updatedAt = 1747699200000 \<rparr>]"

definition sample_db :: db where
  "sample_db =
     \<lparr> rejects_NaN = True, reviews = sample_reviews, reviews_seq = 4, faqs = [],
       galleries = [\<lparr> gallery_id = 1, accessCode = ''rossi2025'' \<rparr>,
                    \<lparr> gallery_id = 2, accessCode = ''bianchi'' \<rparr>],
       photos = [\<lparr> photo_id = 1, galleryId = 1, url = ''/p/1.jpg'' \<rparr>,
                 \<lparr> photo_id = 2, galleryId = 2, url = ''/p/2.jpg'' \<rparr>,
                 \<lparr> photo_id = 3, galleryId = 1, url = ''/p/3.jpg'' \<rparr>],
       availabilityDates = sample_dates, availabilityDates_seq = 5,
       availabilityTimeSlots = sample_slots, availabilityTimeSlots_seq = 4 \<rparr>"

definition sample_parse :: "string \<Rightarrow> date option" where
  "sample_parse s = (if s = ''2025-06-01'' then Some 1748736000000 else None)"

definition sample_env :: env where
  "sample_env =
     \<lparr> now = 1748772000000, Date_parse = sample_parse, LocalTZA = (\<lambda>t isUTC. 7200000) \<rparr>"

definition later_env :: env where
  "later_env =
     \<lparr> now = 1748772300000, Date_parse = sample_parse, LocalTZA = (\<lambda>t isUTC. 7200000) \<rparr>"

definition empty_body :: body where
  "empty_body =
     \<lparr> body_author = None, body_content = None, body_status = None,
       body_modifiedContent = None, body_date = None, body_isAvailable = None,
       body_startTime = None, body_endTime = None \<rparr>"

definition anonymous :: "string \<Rightarrow> body \<Rightarrow> request" where
  "anonymous i b = \<lparr> adminSession = None, params_id = i, params_code = [], req_body = b \<rparr>"

definition as_admin :: "string \<Rightarrow> body \<Rightarrow> request" where
  "as_admin i b = \<lparr> adminSession = Some 1, params_id = i, params_code = [], req_body = b \<rparr>"

definition with_code :: "string \<Rightarrow> request" where
  "with_code c = \<lparr> adminSession = None, params_id = [], params_code = c, req_body = empty_body \<rparr>"

text \<open>Bodies for the two creating routes and for a review.\<close>

definition date_body :: body where
  "date_body = empty_body\<lparr> body_date := Some ''2025-06-01'', body_isAvailable := Some False \<rparr>"

definition slot_body :: "bool option \<Rightarrow> body" where
  "slot_body b =
     empty_body\<lparr> body_startTime := Some ''09:00'', body_endTime := Some ''10:00'',
                 body_isAvailable := b \<rparr>"

definition review_body :: "string \<Rightarrow> string option \<Rightarrow> body" where
  "review_body a s =
     empty_body\<lparr> body_author := Some a, body_content := Some ''Ottimo servizio'',
                 body_status := s \<rparr>"

section \<open>Properties\<close>

subsection \<open>The JavaScript functions on samples\<close>

text \<open>
  The seventh sample begins with a no-break space; the last three are rounded to a
  double, the first of them a tie that goes to the even neighbour.
\<close>

lemma parseInt_samples:
  "parseInt ''42'' = Some 42"
  "parseInt ''  -17abc'' = Some (- 17)"
  "parseInt ''0x1F'' = Some 31"
  "parseInt ''12.5'' = Some 12"
  "parseInt ''abc'' = None"
  "parseInt [] = None"
  "parseInt [CHR 0xA0, CHR ''2''] = Some 2"
  "parseInt ''2147483648'' = Some 2147483648"
  "parseInt ''9007199254740993'' = Some 9007199254740992"
  "parseInt ''9007199254740995'' = Some 9007199254740996"
  "parseInt ''123456789012345678901234567890'' = Some 123456789012345677877719597056"
  by code_simp+

text \<open>
  In UTC: 1 June 2025 plus three months is 1 September 2025 (92 days on); 31 January 2024
  gives 1 May 2024 (91 days on, April has no 31st day); 15 December 2025 gives 15 March
  2026 (90 days on); 30 November 2025, 23:30, gives 2 March 2026, 23:30, since February
  has no 30th day. The same instant on a clock one hour ahead of UTC is 1 December, 00:30,
  and gives 1 March, 00:30, there, which is 28 February, 23:30, in UTC. The last instant
  of the range of dates gives an invalid date.
\<close>

lemma setMonth_samples:
  "setMonth (\<lambda>t isUTC. 0) 1748736000000 (getMonth (\<lambda>t isUTC. 0) 1748736000000 + 3)
     = Some 1756684800000"
  "setMonth (\<lambda>t isUTC. 0) 1706659200000 (getMonth (\<lambda>t isUTC. 0) 1706659200000 + 3)
     = Some 1714521600000"
  "setMonth (\<lambda>t isUTC. 0) 1765756800000 (getMonth (\<lambda>t isUTC. 0) 1765756800000 + 3)
     = Some 1773532800000"
  "setMonth (\<lambda>t isUTC. 0) 1764545400000 (getMonth (\<lambda>t isUTC. 0) 1764545400000 + 3)
     = Some 1772494200000"
  "setMonth (\<lambda>t isUTC. 3600000) 1764545400000 (getMonth (\<lambda>t isUTC. 3600000) 1764545400000 + 3)
     = Some 1772321400000"
  "setMonth (\<lambda>t isUTC. 0) 8640000000000000 (getMonth (\<lambda>t isUTC. 0) 8640000000000000 + 3)
     = None"
  by code_simp+

subsection \<open>The date arithmetic and the calendar\<close>

lemma div_step:
  fixes a c :: int
  assumes "0 < c"
  shows "(a + 1) div c = a div c + (if c dvd (a + 1) then 1 else 0)"
proof (cases "c dvd (a + 1)")
  case True
  then obtain k where k: "a + 1 = c * k" ..
  then have "a = c * (k - 1) + (c - 1)" by (simp add: algebra_simps)
  then have "a div c = k - 1"
    by (rule int_div_pos_eq) (use assms in simp_all)
  moreover from k assms have "(a + 1) div c = k" by simp
  ultimately show ?thesis using True by simp
next
  case False
  then have "(a + 1) mod c \<noteq> 0" by (simp add: dvd_eq_mod_eq_0)
  moreover have "0 \<le> (a + 1) mod c" "(a + 1) mod c < c" using assms by simp_all
  ultimately have r: "0 \<le> (a + 1) mod c - 1" "(a + 1) mod c - 1 < c" by linarith+
  have "a + 1 = c * ((a + 1) div c) + (a + 1) mod c" by simp
  then have "a = c * ((a + 1) div c) + ((a + 1) mod c - 1)" by linarith
  then have "a div c = (a + 1) div c"
    using r by (rule int_div_pos_eq)
  then show ?thesis using False by simp
qed

lemma div_pred:
  fixes y c :: int
  assumes "0 < c"
  shows "y div c = (y - 1) div c + (if c dvd y then 1 else 0)"
  using div_step [OF assms, of "y - 1"] by simp

lemma leap_count:
  "(if (4::int) dvd y then 1 else 0) - (if 100 dvd y then 1 else 0)
    + (if 400 dvd y then 1 else 0) = (if cal_leap_year y then 1 else (0::int))"
proof -
  have "(100::int) = 4 * 25" "(400::int) = 100 * 4" by simp_all
  then have a: "400 dvd y \<Longrightarrow> 100 dvd y" and b: "100 dvd y \<Longrightarrow> 4 dvd y"
    by (metis dvd_mult_left)+
  show ?thesis using a b by (auto simp: cal_leap_year_def)
qed

lemma march_step: "march y = march (y - 1) + 365 + (if cal_leap_year y then 1 else 0)"
  unfolding march_def
  using div_pred [of 4 y] div_pred [of 100 y] div_pred [of 400 y] leap_count [of y]
  by simp

lemma year_start_march: "cal_year_start y = march (y - 1) + 306"
proof -
  have 1: "(y - 1969) div 4 = (y - 1) div 4 - 492"
    using div_mult_self1 [of 4 "y - 1" "- 492"] by simp
  have 2: "(y - 1901) div 100 = (y - 1) div 100 - 19"
    using div_mult_self1 [of 100 "y - 1" "- 19"] by simp
  have 3: "(y - 1601) div 400 = (y - 1) div 400 - 4"
    using div_mult_self1 [of 400 "y - 1" "- 4"] by simp
  show ?thesis unfolding cal_year_start_def march_def 1 2 3 by simp
qed


lemma month_cases:
  fixes m :: int
  assumes "0 \<le> m" and "m < 12"
  shows "m = 0 \<or> m = 1 \<or> m = 2 \<or> m = 3 \<or> m = 4 \<or> m = 5 \<or> m = 6 \<or> m = 7 \<or> m = 8
    \<or> m = 9 \<or> m = 10 \<or> m = 11"
  using assms by arith

lemma dayFromYearMonth_march:
  "dayFromYearMonth y m =
     march (if m < 2 then y - 1 else y) + (153 * (if m < 2 then m + 10 else m - 2) + 2) div 5"
  by (simp add: dayFromYearMonth_def march_def Let_def)

lemma dayFromYearMonth_cal:
  assumes "0 \<le> m" and "m < 12"
  shows "dayFromYearMonth y m = cal_day y m 1"
  using month_cases [OF assms]
  by (elim disjE)
    (simp_all add: dayFromYearMonth_march cal_day_def year_start_march cal_month_lengths_def
      march_step [of y])


lemma doy_ok_all: "list_all doy_ok [0..365]"
  by code_simp

lemma doy_month:
  assumes "0 \<le> doy" and "doy \<le> 365"
  shows "doy_ok doy"
proof -
  from assms have "doy \<in> set [0..365]" by simp
  with doy_ok_all show ?thesis by (simp only: list_all_iff)
qed


lemma clamp_cycle:
  fixes x len :: int
  assumes "0 \<le> x" and "x \<le> 4 * len" and "0 < len"
  shows "0 \<le> min 3 (x div len)" and "min 3 (x div len) \<le> 3"
    and "0 \<le> x - len * min 3 (x div len)" and "x - len * min 3 (x div len) \<le> len"
    and "x - len * min 3 (x div len) = len \<Longrightarrow> min 3 (x div len) = 3 \<and> x = 4 * len"
proof -
  define q r where "q = x div len" and "r = x mod len"
  have x: "x = len * q + r" and r: "0 \<le> r" "r < len"
    using assms(3) by (simp_all add: q_def r_def)
  have q0: "0 \<le> q"
    using assms(1,3) by (simp add: q_def pos_imp_zdiv_nonneg_iff)
  have q4: "q \<le> 4"
  proof (rule ccontr)
    assume "\<not> q \<le> 4"
    then have "5 \<le> q" by simp
    then have "len * 5 \<le> len * q" using assms(3) by (simp add: mult_left_mono)
    with x r assms(2,3) show False by linarith
  qed
  consider "q \<le> 3" | "q = 4" using q4 by linarith
  then have main: "0 \<le> min 3 q \<and> min 3 q \<le> 3 \<and> 0 \<le> x - len * min 3 q \<and> x - len * min 3 q \<le> len
      \<and> (x - len * min 3 q = len \<longrightarrow> min 3 q = 3 \<and> x = 4 * len)"
  proof cases
    case 1
    then have "min 3 q = q" by simp
    with x r q0 1 show ?thesis by simp
  next
    case 2
    then have m: "min 3 q = 3" by simp
    from 2 x have "x = 4 * len + r" by simp
    with assms(2) r have "r = 0" by linarith
    with \<open>x = 4 * len + r\<close> m assms(3) show ?thesis by simp
  qed
  show "0 \<le> min 3 (x div len)" and "min 3 (x div len) \<le> 3"
    and "0 \<le> x - len * min 3 (x div len)" and "x - len * min 3 (x div len) \<le> len"
    and "x - len * min 3 (x div len) = len \<Longrightarrow> min 3 (x div len) = 3 \<and> x = 4 * len"
    using main unfolding q_def by blast+
qed


lemma march_cycles:
  fixes era n100 n4 n1 :: int
  assumes "0 \<le> n100" "n100 \<le> 3" "0 \<le> n4" "n4 \<le> 24" "0 \<le> n1" "n1 \<le> 3"
  shows "march (400 * era + 100 * n100 + 4 * n4 + n1) =
           146097 * era + 36524 * n100 + 1461 * n4 + 365 * n1 - 719468"
proof -
  let ?y = "400 * era + 100 * n100 + 4 * n4 + n1"
  have "?y = 4 * (100 * era + 25 * n100 + n4) + n1" by simp
  then have 4: "?y div 4 = 100 * era + 25 * n100 + n4"
    by (rule int_div_pos_eq) (use assms in simp_all)
  have "?y = 100 * (4 * era + n100) + (4 * n4 + n1)" by simp
  then have 100: "?y div 100 = 4 * era + n100"
    by (rule int_div_pos_eq) (use assms in simp_all)
  have "?y = 400 * era + (100 * n100 + 4 * n4 + n1)" by simp
  then have 400: "?y div 400 = era"
    by (rule int_div_pos_eq) (use assms in simp_all)
  show ?thesis unfolding march_def 4 100 400 by simp
qed

lemma leap_cycle_end:
  fixes era n100 n4 :: int
  assumes "0 \<le> n4" "n4 \<le> 24" and "n4 = 24 \<Longrightarrow> n100 = 3"
  shows "cal_leap_year (400 * era + 100 * n100 + 4 * n4 + 3 + 1)"
proof -
  let ?y = "400 * era + 100 * n100 + 4 * n4 + 3 + 1"
  have y: "?y = 4 * (100 * era + 25 * n100 + n4 + 1)" by simp
  then have 4: "4 dvd ?y" by (metis dvd_triv_left)
  have "400 dvd ?y" if "100 dvd ?y"
  proof -
    have "?y = 100 * (4 * era + n100) + 4 * (n4 + 1)" by simp
    with that have "100 dvd 4 * (n4 + 1)"
      by (metis dvd_add_right_iff dvd_triv_left)
    then obtain k where k: "4 * (n4 + 1) = 100 * k" ..
    with assms(1,2) have "k = 1" by presburger
    with k have "n4 = 24" by simp
    with assms(3) have "n100 = 3" by simp
    with \<open>n4 = 24\<close> have "?y = 400 * (era + 1)" by simp
    then show ?thesis by (metis dvd_triv_left)
  qed
  with 4 show ?thesis by (simp only: cal_leap_year_def split: if_split) blast
qed


lemma civilFromDay_cal:
  assumes "civilFromDay z = (y, m, d)"
  shows "cal_date z y m d"
proof -
  define era doe where "era = (z + 719468) div 146097" and "doe = (z + 719468) mod 146097"
  define n100 where "n100 = min 3 (doe div 36524)"
  define d2 where "d2 = doe - 36524 * n100"
  define n4 d3 where "n4 = d2 div 1461" and "d3 = d2 mod 1461"
  define n1 where "n1 = min 3 (d3 div 365)"
  define doy where "doy = d3 - 365 * n1"
  define mp where "mp = (5 * doy + 2) div 153"
  define y' where "y' = 400 * era + 100 * n100 + 4 * n4 + n1"
  have z: "z + 719468 = 146097 * era + doe" and doe: "0 \<le> doe" "doe < 146097"
    by (simp_all add: era_def doe_def)
  from doe have doe4: "doe \<le> 4 * 36524" by simp
  note c100 = clamp_cycle [OF doe(1) doe4, folded n100_def, folded d2_def]
  have n100: "0 \<le> n100" "n100 \<le> 3" and d2: "0 \<le> d2" "d2 \<le> 36524"
    and d2_top: "d2 = 36524 \<Longrightarrow> n100 = 3"
    using c100 by simp_all
  have d2_eq: "d2 = 1461 * n4 + d3" and d3: "0 \<le> d3" "d3 < 1461"
    by (simp_all add: n4_def d3_def)
  have n4: "0 \<le> n4" "n4 \<le> 24"
  proof -
    show "0 \<le> n4" using d2(1) by (simp add: n4_def pos_imp_zdiv_nonneg_iff)
    show "n4 \<le> 24"
    proof (rule ccontr)
      assume "\<not> n4 \<le> 24"
      then have "1461 * 25 \<le> 1461 * n4" by simp
      with d2_eq d3 d2(2) show False by linarith
    qed
  qed
  from d3 have d34: "d3 \<le> 4 * 365" by simp
  note c1 = clamp_cycle [OF d3(1) d34, folded n1_def, folded doy_def]
  have n1: "0 \<le> n1" "n1 \<le> 3" and doy: "0 \<le> doy" "doy \<le> 365"
    and doy_top: "doy = 365 \<Longrightarrow> n1 = 3 \<and> d3 = 4 * 365"
    using c1 by simp_all
  have ok: "doy_ok doy" using doy by (rule doy_month)
  define m0 where "m0 = (if mp < 10 then mp + 2 else mp - 10)"
  have "civilFromDay z =
      (y' + (if m0 < 2 then 1 else 0), m0, doy - (153 * mp + 2) div 5 + 1)"
    by (simp only: civilFromDay_def Let_def era_def doe_def n100_def d2_def n4_def d3_def
        n1_def doy_def mp_def y'_def m0_def)
  with assms have raw: "y = y' + (if m0 < 2 then 1 else 0)" "m = m0"
    "d = doy - (153 * mp + 2) div 5 + 1"
    by auto
  have "doy_ok doy = (0 \<le> mp \<and> mp \<le> 11 \<and> 1 \<le> d \<and> d \<le> march_lengths ! nat mp
         \<and> (if mp = 11 \<and> d = 29 then doy = 365 else True))"
    by (simp only: doy_ok_def Let_def mp_def raw(3))
  with ok have mp: "0 \<le> mp" "mp \<le> 11" and dd: "1 \<le> d" "d \<le> march_lengths ! nat mp"
    and feb: "mp = 11 \<Longrightarrow> d = 29 \<Longrightarrow> doy = 365"
    by (simp_all split: if_splits)
  have res: "y = y' + (if mp < 10 then 0 else 1)"
    "m = (if mp < 10 then mp + 2 else mp - 10)"
    "d = doy - (153 * mp + 2) div 5 + 1"
    using raw mp by (simp_all add: m0_def)
  have m: "0 \<le> m" "m < 12" using mp by (simp_all add: res(2))
  have "dayFromYearMonth y m = march y' + (153 * mp + 2) div 5"
    using mp by (simp add: dayFromYearMonth_march res(1,2))
  also have "march y' = 146097 * era + 36524 * n100 + 1461 * n4 + 365 * n1 - 719468"
    unfolding y'_def using n100 n4 n1 by (rule march_cycles)
  finally have "dayFromYearMonth y m + d - 1 = z"
    using z d2_eq by (simp add: res(3) d2_def doy_def)
  then have day: "cal_day y m d = z"
    using dayFromYearMonth_cal [OF m, of y] by (simp add: cal_day_def)
  have len: "d \<le> cal_month_lengths y ! nat m"
  proof (cases "mp = 11")
    case True
    then have ym: "m = 1" "y = y' + 1" by (simp_all add: res)
    from dd(2) True have d29: "d \<le> 29" by (simp add: march_lengths_def)
    show ?thesis
    proof (cases "d = 29")
      case True
      with feb \<open>mp = 11\<close> have "doy = 365" by simp
      with doy_top have t: "n1 = 3" "d3 = 4 * 365" by simp_all
      have "cal_leap_year (400 * era + 100 * n100 + 4 * n4 + 3 + 1)"
      proof (rule leap_cycle_end [OF n4])
        assume "n4 = 24"
        with d2_eq t(2) have "d2 = 36524" by simp
        then show "n100 = 3" by (rule d2_top)
      qed
      then have "cal_leap_year y" by (simp add: ym(2) y'_def t(1))
      with True ym(1) show ?thesis by (simp add: cal_month_lengths_def)
    next
      case False
      with d29 have "d \<le> 28" by simp
      with ym(1) show ?thesis by (simp add: cal_month_lengths_def)
    qed
  next
    case False
    with mp have "mp = 0 \<or> mp = 1 \<or> mp = 2 \<or> mp = 3 \<or> mp = 4 \<or> mp = 5 \<or> mp = 6 \<or> mp = 7
        \<or> mp = 8 \<or> mp = 9 \<or> mp = 10"
      by arith
    then show ?thesis
      using dd(2)
      by (elim disjE) (simp_all add: res(2) march_lengths_def cal_month_lengths_def)
  qed
  from m dd(1) len day show ?thesis by (simp add: cal_date_def)
qed

lemma cal_date_civilFromDay:
  "cal_date z (fst (civilFromDay z)) (fst (snd (civilFromDay z))) (snd (snd (civilFromDay z)))"
  by (rule civilFromDay_cal) simp


lemma year_start_step:
  "cal_year_start (y + 1) = cal_year_start y + 365 + (if cal_leap_year y then 1 else 0)"
  using march_step [of y] by (simp add: year_start_march)

lemma cal_date_in_year:
  assumes "cal_date z y m d"
  shows "cal_year_start y \<le> z" and "z < cal_year_start (y + 1)"
proof -
  from assms have m: "0 \<le> m" "m < 12" and d: "1 \<le> d" "d \<le> cal_month_lengths y ! nat m"
    and z: "z = cal_day y m d"
    by (simp_all add: cal_date_def)
  from month_cases [OF m] d
  have "cal_year_start y \<le> cal_day y m d \<and> cal_day y m d < cal_year_start (y + 1)"
    by (elim disjE)
      (simp_all add: cal_day_def cal_month_lengths_def year_start_step split: if_splits)
  with z show "cal_year_start y \<le> z" and "z < cal_year_start (y + 1)" by simp_all
qed

lemma year_start_mono:
  assumes "y \<le> y'"
  shows "cal_year_start y \<le> cal_year_start y'"
  using assms
proof (induction y' rule: int_ge_induct)
  case base
  show ?case by simp
next
  case (step i)
  then show ?case by (simp add: year_start_step)
qed

lemma cal_date_year_unique:
  assumes "cal_date z y m d" and "cal_date z y' m' d'"
  shows "y = y'"
proof (rule ccontr)
  assume "y \<noteq> y'"
  then consider "y + 1 \<le> y'" | "y' + 1 \<le> y" by linarith
  then show False
  proof cases
    case 1
    from year_start_mono [OF 1] cal_date_in_year [OF assms(1)] cal_date_in_year [OF assms(2)]
    show False by linarith
  next
    case 2
    from year_start_mono [OF 2] cal_date_in_year [OF assms(1)] cal_date_in_year [OF assms(2)]
    show False by linarith
  qed
qed

lemma cal_date_unique:
  assumes "cal_date z y m d" and "cal_date z y' m' d'"
  shows "y = y' \<and> m = m' \<and> d = d'"
proof -
  have y: "y' = y" using assms by (rule cal_date_year_unique [symmetric])
  from assms have m: "0 \<le> m" "m < 12" and d: "1 \<le> d" "d \<le> cal_month_lengths y ! nat m"
    and m': "0 \<le> m'" "m' < 12" and d': "1 \<le> d'" "d' \<le> cal_month_lengths y ! nat m'"
    and eq: "cal_day y m d = cal_day y m' d'"
    by (simp_all add: cal_date_def y)
  from month_cases [OF m] month_cases [OF m'] d d' eq
  have "m = m' \<and> d = d'"
    by (elim disjE) (simp_all add: cal_day_def cal_month_lengths_def split: if_splits)
  with y show ?thesis by simp
qed


lemma cal_day_shift: "cal_day y m d = cal_day y m 1 + d - 1"
  by (simp add: cal_day_def)

lemma MakeDay_three_months:
  assumes "0 \<le> m" and "m < 12"
  shows "MakeDay y (m + 3) d =
           cal_day (if m < 9 then y else y + 1) (if m < 9 then m + 3 else m - 9) d"
proof (cases "m < 9")
  case True
  with assms have "(m + 3) div 12 = 0" "(m + 3) mod 12 = m + 3" by simp_all
  moreover from True assms have "dayFromYearMonth y (m + 3) = cal_day y (m + 3) 1"
    by (intro dayFromYearMonth_cal) simp_all
  ultimately show ?thesis
    using True by (simp add: MakeDay_def cal_day_shift [of y "m + 3" d])
next
  case False
  with assms have "m + 3 = 12 * 1 + (m - 9)" "0 \<le> m - 9" "m - 9 < 12" by simp_all
  then have "(m + 3) div 12 = 1" "(m + 3) mod 12 = m - 9"
    by (metis int_div_pos_eq, metis int_mod_pos_eq)
  moreover from False assms have "dayFromYearMonth (y + 1) (m - 9) = cal_day (y + 1) (m - 9) 1"
    by (intro dayFromYearMonth_cal) simp_all
  ultimately show ?thesis
    using False by (simp add: MakeDay_def cal_day_shift [of "y + 1" "m - 9" d])
qed

text \<open>
  What \<^verbatim>\<open>d.setMonth(d.getMonth() + 3)\<close> makes of an instant \<open>t\<close>: when the local clock at
  \<open>t\<close> shows the \<open>d\<close>-th of month \<open>m\<close> of year \<open>y\<close>, the result is the instant at which the
  local clock shows the same time of day three months on, clipped to the range of dates.
\<close>

lemma setMonth_three_months_on:
  assumes "cal_date ((t + tz t True) div 86400000) y m d"
  shows "setMonth tz t (getMonth tz t + 3) =
           TimeClip (cal_three_months_on y m d ((t + tz t True) mod 86400000)
                     - tz (cal_three_months_on y m d ((t + tz t True) mod 86400000)) False)"
proof -
  let ?lt = "t + tz t True"
  have "cal_date (?lt div 86400000) (fst (civilFromDay (?lt div 86400000)))
          (fst (snd (civilFromDay (?lt div 86400000)))) (snd (snd (civilFromDay (?lt div 86400000))))"
    by (rule cal_date_civilFromDay)
  from cal_date_unique [OF this assms]
  have c: "YearFromTime ?lt = y" "MonthFromTime ?lt = m" "DateFromTime ?lt = d"
    by (simp_all add: YearFromTime_def MonthFromTime_def DateFromTime_def Day_def msPerDay_def)
  from assms have m: "0 \<le> m" "m < 12" by (simp_all add: cal_date_def)
  show ?thesis
    by (simp add: setMonth_def getMonth_def LocalTime_def UTC_def Let_def c MakeDate_def
        MakeDay_three_months [OF m] cal_three_months_on_def TimeWithinDay_def msPerDay_def)
qed

lemma cal_date_exists: "\<exists>y m d. cal_date z y m d"
  using cal_date_civilFromDay by blast

subsection \<open>The gate\<close>

lemma requireAdmin_refuses:
  "adminSession req = None \<Longrightarrow>
   requireAdmin h e req d = (\<lparr> statusCode = 401, json = ErrorJson Unauthorized \<rparr>, d)"
  by (simp add: requireAdmin_def)

lemma requireAdmin_passes:
  "adminSession req = Some a \<Longrightarrow> requireAdmin h e req d = h e req d"
  by (simp add: requireAdmin_def)

text \<open>
  C1. A request without an admin session to any of the seven admin-only routes is answered
  with status 401 and leaves the database as it was; the answer is the same whatever
  handler stands behind the gate, so the handler's body is not run.
\<close>

theorem admin_routes_gate:
  assumes "r \<in> set admin_routes" and "adminSession req = None"
  shows "registerRoutes r e req d = (\<lparr> statusCode = 401, json = ErrorJson Unauthorized \<rparr>, d)
       \<and> (\<forall>h. requireAdmin h e req d =
                 (\<lparr> statusCode = 401, json = ErrorJson Unauthorized \<rparr>, d))"
proof -
  have gate: "requireAdmin h e req d = (\<lparr> statusCode = 401, json = ErrorJson Unauthorized \<rparr>, d)"
    for h
    using assms(2) by (rule requireAdmin_refuses)
  from assms(1)
  have "registerRoutes r e req d = (\<lparr> statusCode = 401, json = ErrorJson Unauthorized \<rparr>, d)"
    by (auto simp: admin_routes_def gate)
  with gate show ?thesis by blast
qed

text \<open>
  On the sample store an anonymous \<^verbatim>\<open>POST /api/availability\<close> is refused and nothing is
  stored, while the handler alone would have answered otherwise.
\<close>

theorem admin_routes_gate_witness:
  "POST_api_availability \<in> set admin_routes
   \<and> adminSession (anonymous ''7'' (empty_body\<lparr> body_date := Some ''2025-06-01'' \<rparr>)) = None
   \<and> registerRoutes POST_api_availability sample_env
        (anonymous ''7'' (empty_body\<lparr> body_date := Some ''2025-06-01'' \<rparr>)) sample_db
      = (\<lparr> statusCode = 401, json = ErrorJson Unauthorized \<rparr>, sample_db)
   \<and> post_api_availability sample_env
        (anonymous ''7'' (empty_body\<lparr> body_date := Some ''2025-06-01'' \<rparr>)) sample_db
      \<noteq> (\<lparr> statusCode = 401, json = ErrorJson Unauthorized \<rparr>, sample_db)"
  using admin_routes_gate [of POST_api_availability
      "anonymous ''7'' (empty_body\<lparr> body_date := Some ''2025-06-01'' \<rparr>)" sample_env sample_db]
  by (simp add: admin_routes_def anonymous_def post_api_availability_def new_Date_def
      sample_env_def sample_parse_def empty_body_def createAvailabilityDate_def Let_def)

subsection \<open>The availability window\<close>

lemma Promise_all_Inr: "Promise_all (map (\<lambda>x. Inr (f x)) xs) = Inr (map f xs)"
  by (induction xs) simp_all

lemma getAvailabilityDates_rows:
  "getAvailabilityDates (Some s) (Some t) d =
     Inr (map (\<lambda>dt. (dt, sort_key startTime
                 (filter (\<lambda>sl. dateId sl = date_id dt) (availabilityTimeSlots d))))
            (sort_key date (filter (\<lambda>r. s \<le> date r \<and> date r \<le> t) (availabilityDates d))))"
  by (simp add: getAvailabilityDates_def getAvailabilityTimeSlots_def Promise_all_Inr)

lemma getAvailabilityDates_invalid: "getAvailabilityDates s None d = Inl StoreError"
  by (simp add: getAvailabilityDates_def split: option.splits)

text \<open>The end date that the route computes is three months after now, by the calendar.\<close>

lemma get_api_availability_endDate:
  assumes "cal_date (local_day_now e) y m d"
  shows "setMonth (LocalTZA e) (now e) (getMonth (LocalTZA e) (now e) + 3) =
           TimeClip (three_months_after_now e y m d)"
  using setMonth_three_months_on [of "now e" "LocalTZA e" y m d] assms
  by (simp add: local_day_now_def three_months_after_now_def)

lemma get_api_availability_rows:
  assumes "setMonth (LocalTZA e) (now e) (getMonth (LocalTZA e) (now e) + 3) = Some t"
  shows "registerRoutes GET_api_availability e req d =
     (\<lparr> statusCode = 200,
        json = AvailabilityJson
          (map (\<lambda>dt. (dt, sort_key startTime
                  (filter (\<lambda>sl. dateId sl = date_id dt) (availabilityTimeSlots d))))
             (sort_key date
                (filter (\<lambda>r. now e \<le> date r \<and> date r \<le> t) (availabilityDates d)))) \<rparr>, d)"
  using assms by (simp add: get_api_availability_def getAvailabilityDates_rows)

text \<open>
  C2. Let the local clock at \<open>D = now e\<close> show the \<open>d\<close>-th of month \<open>m\<close> of year \<open>y\<close> (it
  shows one such day, and only one by \<open>cal_date_unique\<close>). Then
  \<^verbatim>\<open>GET /api/availability\<close> answers 200 with exactly the calendar dates whose \<open>date\<close> lies
  between \<open>D\<close> and three months after \<open>D\<close>, both ends included, in ascending order of
  \<open>date\<close>; each carries exactly the time slots whose \<open>dateId\<close> is its id, in ascending
  order of \<open>startTime\<close>; the database is not changed. Only when three months after \<open>D\<close>
  is beyond the range of dates is there no window: the end date is invalid, the query
  throws and the answer is 500.
\<close>

theorem get_api_availability_window:
  "(\<exists>y m d. cal_date (local_day_now e) y m d)
   \<and> (\<forall>y m d. cal_date (local_day_now e) y m d \<longrightarrow>
        (\<bar>three_months_after_now e y m d\<bar> \<le> 8640000000000000 \<longrightarrow>
           (\<exists>rows. registerRoutes GET_api_availability e req db =
                     (\<lparr> statusCode = 200, json = AvailabilityJson rows \<rparr>, db)
              \<and> mset (map fst rows) =
                  mset (filter (\<lambda>r. now e \<le> date r \<and> date r \<le> three_months_after_now e y m d)
                          (availabilityDates db))
              \<and> sorted (map (\<lambda>row. date (fst row)) rows)
              \<and> (\<forall>(dt, slots) \<in> set rows.
                   mset slots =
                     mset (filter (\<lambda>sl. dateId sl = date_id dt) (availabilityTimeSlots db))
                 \<and> sorted (map startTime slots))))
      \<and> (8640000000000000 < \<bar>three_months_after_now e y m d\<bar> \<longrightarrow>
           registerRoutes GET_api_availability e req db =
             (\<lparr> statusCode = 500,
                json = ErrorJson Errore_nel_recupero_delle_disponibilita \<rparr>, db)))"
proof (intro conjI allI impI)
  show "\<exists>y m d. cal_date (local_day_now e) y m d"
    by (rule cal_date_exists)
next
  fix y m d
  assume cal: "cal_date (local_day_now e) y m d"
    and range: "\<bar>three_months_after_now e y m d\<bar> \<le> 8640000000000000"
  let ?E = "three_months_after_now e y m d"
  let ?slots = "\<lambda>dt. sort_key startTime
      (filter (\<lambda>sl. dateId sl = date_id dt) (availabilityTimeSlots db))"
  let ?dates = "sort_key date
      (filter (\<lambda>r. now e \<le> date r \<and> date r \<le> ?E) (availabilityDates db))"
  let ?rows = "map (\<lambda>dt. (dt, ?slots dt)) ?dates"
  from get_api_availability_endDate [OF cal] range
  have "setMonth (LocalTZA e) (now e) (getMonth (LocalTZA e) (now e) + 3) = Some ?E"
    by (simp add: TimeClip_def)
  then have res: "registerRoutes GET_api_availability e req db =
      (\<lparr> statusCode = 200, json = AvailabilityJson ?rows \<rparr>, db)"
    by (rule get_api_availability_rows)
  have fsts: "map fst ?rows = ?dates"
    by (simp add: comp_def)
  have m: "mset (map fst ?rows) =
      mset (filter (\<lambda>r. now e \<le> date r \<and> date r \<le> ?E) (availabilityDates db))"
    unfolding fsts by simp
  have "map (\<lambda>row. date (fst row)) ?rows = map date ?dates"
    by (simp add: comp_def)
  then have s: "sorted (map (\<lambda>row. date (fst row)) ?rows)"
    by (simp only: sorted_sort_key)
  have sl: "\<forall>(dt, slots) \<in> set ?rows.
      mset slots = mset (filter (\<lambda>sl. dateId sl = date_id dt) (availabilityTimeSlots db))
      \<and> sorted (map startTime slots)"
    by auto
  from res m s sl
  show "\<exists>rows. registerRoutes GET_api_availability e req db =
                     (\<lparr> statusCode = 200, json = AvailabilityJson rows \<rparr>, db)
              \<and> mset (map fst rows) =
                  mset (filter (\<lambda>r. now e \<le> date r \<and> date r \<le> three_months_after_now e y m d)
                          (availabilityDates db))
              \<and> sorted (map (\<lambda>row. date (fst row)) rows)
              \<and> (\<forall>(dt, slots) \<in> set rows.
                   mset slots =
                     mset (filter (\<lambda>sl. dateId sl = date_id dt) (availabilityTimeSlots db))
                 \<and> sorted (map startTime slots))"
    by blast
next
  fix y m d
  assume cal: "cal_date (local_day_now e) y m d"
    and range: "8640000000000000 < \<bar>three_months_after_now e y m d\<bar>"
  from get_api_availability_endDate [OF cal] range
  have "setMonth (LocalTZA e) (now e) (getMonth (LocalTZA e) (now e) + 3) = None"
    by (simp add: TimeClip_def)
  then show "registerRoutes GET_api_availability e req db =
             (\<lparr> statusCode = 500,
                json = ErrorJson Errore_nel_recupero_delle_disponibilita \<rparr>, db)"
    by (simp add: get_api_availability_def getAvailabilityDates_invalid)
qed

text \<open>
  On the sample store, at 10:00 UTC on 1 June 2025, noon on the sample clock: three
  months on is noon on 1 September there, 10:00 UTC. The dates of 15 June and 10 July are
  returned in that order, the one of 1 January and the one of 25 December are not, and
  the slots of 10 July come as 09:00, 14:00.
\<close>

lemma sample_local_day: "cal_date (local_day_now sample_env) 2025 5 1"
  by (simp add: local_day_now_def sample_env_def cal_date_def cal_day_def cal_year_start_def
      cal_month_lengths_def cal_leap_year_def)

lemma sample_window_end: "three_months_after_now sample_env 2025 5 1 = 1756720800000"
  by (simp add: three_months_after_now_def sample_env_def cal_three_months_on_def cal_day_def
      cal_year_start_def cal_month_lengths_def cal_leap_year_def)

lemma sample_availability:
  "registerRoutes GET_api_availability sample_env (with_code []) sample_db =
   (\<lparr> statusCode = 200, json = AvailabilityJson
       [(sample_dates ! 1, [sample_slots ! 2]),
        (sample_dates ! 0, [sample_slots ! 1, sample_slots ! 0])] \<rparr>, sample_db)"
proof -
  have "setMonth (LocalTZA sample_env) (now sample_env)
      (getMonth (LocalTZA sample_env) (now sample_env) + 3) = Some 1756720800000"
    using get_api_availability_endDate [OF sample_local_day]
    by (simp add: sample_window_end TimeClip_def)
  from get_api_availability_rows [OF this, of "with_code []" sample_db]
  show ?thesis
    by (simp add: sample_env_def sample_db_def sample_dates_def sample_slots_def)
qed

theorem get_api_availability_window_witness:
  "cal_date (local_day_now sample_env) 2025 5 1
   \<and> three_months_after_now sample_env 2025 5 1 = 1756720800000
   \<and> registerRoutes GET_api_availability sample_env (with_code []) sample_db =
     (\<lparr> statusCode = 200, json = AvailabilityJson
         [(sample_dates ! 1, [sample_slots ! 2]),
          (sample_dates ! 0, [sample_slots ! 1, sample_slots ! 0])] \<rparr>, sample_db)
   \<and> mset [sample_dates ! 1, sample_dates ! 0] =
       mset (filter (\<lambda>r. now sample_env \<le> date r \<and> date r \<le> 1756720800000)
               (availabilityDates sample_db))
   \<and> sorted [date (sample_dates ! 1), date (sample_dates ! 0)]
   \<and> mset [sample_slots ! 1, sample_slots ! 0] =
       mset (filter (\<lambda>sl. dateId sl = date_id (sample_dates ! 0)) (availabilityTimeSlots sample_db))
   \<and> sorted [startTime (sample_slots ! 1), startTime (sample_slots ! 0)]"
proof -
  have range: "\<bar>three_months_after_now sample_env 2025 5 1\<bar> \<le> 8640000000000000"
    by (simp add: sample_window_end)
  from get_api_availability_window [of sample_env "with_code []" sample_db]
    sample_local_day range
  obtain rows where r: "registerRoutes GET_api_availability sample_env (with_code []) sample_db =
            (\<lparr> statusCode = 200, json = AvailabilityJson rows \<rparr>, sample_db)"
    and m: "mset (map fst rows) =
         mset (filter (\<lambda>r. now sample_env \<le> date r
                 \<and> date r \<le> three_months_after_now sample_env 2025 5 1)
                 (availabilityDates sample_db))"
    and s: "sorted (map (\<lambda>row. date (fst row)) rows)"
    and sl: "\<forall>(dt, slots) \<in> set rows.
          mset slots = mset (filter (\<lambda>sl. dateId sl = date_id dt) (availabilityTimeSlots sample_db))
        \<and> sorted (map startTime slots)"
    by blast
  from r sample_availability
  have rows: "rows = [(sample_dates ! 1, [sample_slots ! 2]),
          (sample_dates ! 0, [sample_slots ! 1, sample_slots ! 0])]"
    by simp
  from sl have "mset [sample_slots ! 1, sample_slots ! 0] =
       mset (filter (\<lambda>sl. dateId sl = date_id (sample_dates ! 0)) (availabilityTimeSlots sample_db))
     \<and> sorted (map startTime [sample_slots ! 1, sample_slots ! 0])"
    unfolding rows by simp
  with r m s sample_local_day show ?thesis
    unfolding rows sample_window_end by simp
qed

subsection \<open>Updates that match no row\<close>

lemma no_match:
  "\<forall>r \<in> set xs. \<not> P r \<Longrightarrow>
   filter P xs = [] \<and> map (\<lambda>r. if P r then f r else r) xs = xs"
  by (induction xs) simp_all

lemma id_refused_Some:
  "id_refused strict stored (Some n) =
     (n \<notin> set stored \<and> (n < - 2147483648 \<or> 2147483647 < n))"
  by (auto simp: id_refused_def id_value_def)

lemma id_refused_None: "id_refused strict stored None = strict"
  by (simp add: id_refused_def)

lemma updateReview_no_match:
  assumes "\<forall>r \<in> set (reviews d). \<not> eq_id (review_id r) i"
    and "\<not> id_refused (rejects_NaN d) (map review_id (reviews d)) i"
  shows "updateReview t i u d = Inr (None, d)"
  using no_match [OF assms(1), of "set_review u t"] assms(2)
  by (simp add: updateReview_def first_row_def)

lemma updateAvailabilityDate_no_match:
  assumes "\<forall>r \<in> set (availabilityDates d). \<not> eq_id (date_id r) i"
    and "\<not> id_refused (rejects_NaN d) (map date_id (availabilityDates d)) i"
  shows "updateAvailabilityDate t i b d = Inr (None, d)"
  using no_match [OF assms(1), of "set_date b t"] assms(2)
  by (simp add: updateAvailabilityDate_def first_row_def)

lemma updateAvailabilityTimeSlot_no_match:
  assumes "\<forall>r \<in> set (availabilityTimeSlots d). \<not> eq_id (slot_id r) i"
    and "\<not> id_refused (rejects_NaN d) (map slot_id (availabilityTimeSlots d)) i"
  shows "updateAvailabilityTimeSlot t i b d = Inr (None, d)"
  using no_match [OF assms(1), of "set_slot b t"] assms(2)
  by (simp add: updateAvailabilityTimeSlot_def first_row_def)

text \<open>
  C4, as the code has it. An admin's \<^verbatim>\<open>PATCH /api/reviews/:id\<close> whose id is a number that
  is no review's id changes nothing in the database. When the number lies in the range of
  the id column the update matches no row and the answer is 404 with the error body
  \<^verbatim>\<open>Recensione non trovata\<close>; when it lies outside, the store refuses it, \<^verbatim>\<open>updateReview\<close>
  throws and the answer is 500.
\<close>

theorem patch_review_unknown_id:
  assumes "adminSession req = Some admin"
    and "parseInt (params_id req) = Some n"
    and "n \<notin> review_id ` set (reviews d)"
  shows "(- 2147483648 \<le> n \<and> n \<le> 2147483647 \<longrightarrow>
            registerRoutes PATCH_api_reviews_id e req d =
              (\<lparr> statusCode = 404, json = ErrorJson Recensione_non_trovata \<rparr>, d))
       \<and> (n < - 2147483648 \<or> 2147483647 < n \<longrightarrow>
            registerRoutes PATCH_api_reviews_id e req d =
              (\<lparr> statusCode = 500,
                 json = ErrorJson Errore_nell_aggiornamento_della_recensione \<rparr>, d))"
proof (intro conjI impI)
  assume "- 2147483648 \<le> n \<and> n \<le> 2147483647"
  with assms(2)
  have "\<not> id_refused (rejects_NaN d) (map review_id (reviews d)) (parseInt (params_id req))"
    by (simp add: id_refused_Some)
  moreover from assms(2,3)
  have "\<forall>r \<in> set (reviews d). \<not> eq_id (review_id r) (parseInt (params_id req))"
    by (auto simp: eq_id_def)
  ultimately have "updateReview t (parseInt (params_id req)) u d = Inr (None, d)" for t u
    by (rule updateReview_no_match [rotated])
  then show "registerRoutes PATCH_api_reviews_id e req d =
              (\<lparr> statusCode = 404, json = ErrorJson Recensione_non_trovata \<rparr>, d)"
    using assms(1) by (simp add: requireAdmin_passes patch_api_reviews_id_def)
next
  assume "n < - 2147483648 \<or> 2147483647 < n"
  with assms(2,3)
  have "id_refused (rejects_NaN d) (map review_id (reviews d)) (parseInt (params_id req))"
    by (simp add: id_refused_Some)
  then have "updateReview t (parseInt (params_id req)) u d = Inl StoreError" for t u
    by (simp add: updateReview_def)
  then show "registerRoutes PATCH_api_reviews_id e req d =
              (\<lparr> statusCode = 500,
                 json = ErrorJson Errore_nell_aggiornamento_della_recensione \<rparr>, d)"
    using assms(1) by (simp add: requireAdmin_passes patch_api_reviews_id_def)
qed

text \<open>
  The claim as stated, 404 for every id that matches no review, fails at the id
  \<^verbatim>\<open>2147483648\<close>, the first number beyond the id column's range: no review of the sample
  store has it, and the answer is 500.
\<close>

theorem patch_review_unknown_id_counterexample:
  "parseInt (params_id (as_admin ''2147483648'' (empty_body\<lparr> body_status := Some ''approved'' \<rparr>)))
     = Some 2147483648
   \<and> 2147483648 \<notin> review_id ` set (reviews sample_db)
   \<and> registerRoutes PATCH_api_reviews_id sample_env
        (as_admin ''2147483648'' (empty_body\<lparr> body_status := Some ''approved'' \<rparr>)) sample_db =
           (\<lparr> statusCode = 500,
              json = ErrorJson Errore_nell_aggiornamento_della_recensione \<rparr>, sample_db)
   \<and> statusCode (fst (registerRoutes PATCH_api_reviews_id sample_env
        (as_admin ''2147483648'' (empty_body\<lparr> body_status := Some ''approved'' \<rparr>)) sample_db))
       \<noteq> 404"
proof -
  have p: "parseInt ''2147483648'' = Some 2147483648" by code_simp
  have c: "2147483648 \<notin> review_id ` set (reviews sample_db)"
    by (simp add: sample_db_def sample_reviews_def)
  have "registerRoutes PATCH_api_reviews_id sample_env
        (as_admin ''2147483648'' (empty_body\<lparr> body_status := Some ''approved'' \<rparr>)) sample_db =
           (\<lparr> statusCode = 500,
              json = ErrorJson Errore_nell_aggiornamento_della_recensione \<rparr>, sample_db)"
    using c
    by (simp add: requireAdmin_def as_admin_def patch_api_reviews_id_def updateReview_def p
        id_refused_Some)
  with c show ?thesis by (simp add: as_admin_def p)
qed

theorem patch_review_unknown_id_witness:
  "adminSession (as_admin ''99'' (empty_body\<lparr> body_status := Some ''approved'' \<rparr>)) = Some 1
   \<and> parseInt (params_id (as_admin ''99'' (empty_body\<lparr> body_status := Some ''approved'' \<rparr>))) = Some 99
   \<and> 99 \<notin> review_id ` set (reviews sample_db)
   \<and> registerRoutes PATCH_api_reviews_id sample_env
        (as_admin ''99'' (empty_body\<lparr> body_status := Some ''approved'' \<rparr>)) sample_db =
           (\<lparr> statusCode = 404, json = ErrorJson Recensione_non_trovata \<rparr>, sample_db)
   \<and> parseInt (params_id (as_admin ''-2147483649'' empty_body)) = Some (- 2147483649)
   \<and> - 2147483649 \<notin> review_id ` set (reviews sample_db)
   \<and> registerRoutes PATCH_api_reviews_id sample_env
        (as_admin ''-2147483649'' empty_body) sample_db =
           (\<lparr> statusCode = 500,
              json = ErrorJson Errore_nell_aggiornamento_della_recensione \<rparr>, sample_db)"
proof -
  have p: "parseInt ''99'' = Some 99" by code_simp
  have a: "adminSession (as_admin ''99'' (empty_body\<lparr> body_status := Some ''approved'' \<rparr>)) = Some 1"
    by (simp add: as_admin_def)
  have b: "parseInt (params_id (as_admin ''99'' (empty_body\<lparr> body_status := Some ''approved'' \<rparr>))) = Some 99"
    by (simp add: as_admin_def p)
  have c: "99 \<notin> review_id ` set (reviews sample_db)"
    by (simp add: sample_db_def sample_reviews_def)
  have p': "parseInt ''-2147483649'' = Some (- 2147483649)" by code_simp
  have a': "adminSession (as_admin ''-2147483649'' empty_body) = Some 1"
    by (simp add: as_admin_def)
  have b': "parseInt (params_id (as_admin ''-2147483649'' empty_body)) = Some (- 2147483649)"
    by (simp add: as_admin_def p')
  have c': "- 2147483649 \<notin> review_id ` set (reviews sample_db)"
    by (simp add: sample_db_def sample_reviews_def)
  from a b c b' c' patch_review_unknown_id [OF a b c, of sample_env]
    patch_review_unknown_id [OF a' b' c', of sample_env]
  show ?thesis by simp
qed

text \<open>
  C10, as the code has it. An admin's \<^verbatim>\<open>PATCH /api/reviews/:id\<close> whose id \<^verbatim>\<open>parseInt\<close> turns
  into \<^verbatim>\<open>NaN\<close> changes nothing in the database. When the driver refuses the \<^verbatim>\<open>NaN\<close>,
  \<^verbatim>\<open>updateReview\<close> throws and the answer is 500; when the driver lets it through it matches
  no row, and the answer is the 404 of an id that is no review's.
\<close>

theorem patch_review_nan_id:
  assumes "adminSession req = Some admin"
    and "parseInt (params_id req) = None"
  shows "(rejects_NaN d \<longrightarrow>
            registerRoutes PATCH_api_reviews_id e req d =
              (\<lparr> statusCode = 500,
                 json = ErrorJson Errore_nell_aggiornamento_della_recensione \<rparr>, d))
       \<and> (\<not> rejects_NaN d \<longrightarrow>
            registerRoutes PATCH_api_reviews_id e req d =
              (\<lparr> statusCode = 404, json = ErrorJson Recensione_non_trovata \<rparr>, d))"
proof (intro conjI impI)
  assume "rejects_NaN d"
  with assms(2) have "updateReview t (parseInt (params_id req)) u d = Inl StoreError" for t u
    by (simp add: updateReview_def id_refused_None)
  then show "registerRoutes PATCH_api_reviews_id e req d =
              (\<lparr> statusCode = 500,
                 json = ErrorJson Errore_nell_aggiornamento_della_recensione \<rparr>, d)"
    using assms(1) by (simp add: requireAdmin_passes patch_api_reviews_id_def)
next
  assume "\<not> rejects_NaN d"
  with assms(2)
  have "\<not> id_refused (rejects_NaN d) (map review_id (reviews d)) (parseInt (params_id req))"
    by (simp add: id_refused_None)
  moreover from assms(2)
  have "\<forall>r \<in> set (reviews d). \<not> eq_id (review_id r) (parseInt (params_id req))"
    by (simp add: eq_id_def)
  ultimately have "updateReview t (parseInt (params_id req)) u d = Inr (None, d)" for t u
    by (rule updateReview_no_match [rotated])
  then show "registerRoutes PATCH_api_reviews_id e req d =
              (\<lparr> statusCode = 404, json = ErrorJson Recensione_non_trovata \<rparr>, d)"
    using assms(1) by (simp add: requireAdmin_passes patch_api_reviews_id_def)
qed

text \<open>
  The claim as stated, 404 and not 500, fails on the sample store, whose driver refuses
  \<^verbatim>\<open>NaN\<close>: the id \<^verbatim>\<open>abc\<close> is answered with 500.
\<close>

theorem patch_review_nan_id_counterexample:
  "parseInt (params_id (as_admin ''abc'' (empty_body\<lparr> body_status := Some ''approved'' \<rparr>))) = None
   \<and> statusCode (fst (registerRoutes PATCH_api_reviews_id sample_env
        (as_admin ''abc'' (empty_body\<lparr> body_status := Some ''approved'' \<rparr>)) sample_db)) = 500
   \<and> statusCode (fst (registerRoutes PATCH_api_reviews_id sample_env
        (as_admin ''abc'' (empty_body\<lparr> body_status := Some ''approved'' \<rparr>)) sample_db)) \<noteq> 404"
proof -
  have p: "parseInt ''abc'' = None" by code_simp
  show ?thesis
    by (simp add: requireAdmin_def as_admin_def patch_api_reviews_id_def updateReview_def p
        id_refused_None sample_db_def)
qed

theorem patch_review_nan_id_witness:
  "adminSession (as_admin ''abc'' (empty_body\<lparr> body_status := Some ''rejected'' \<rparr>)) = Some 1
   \<and> parseInt (params_id (as_admin ''abc'' (empty_body\<lparr> body_status := Some ''rejected'' \<rparr>))) = None
   \<and> rejects_NaN sample_db
   \<and> registerRoutes PATCH_api_reviews_id sample_env
        (as_admin ''abc'' (empty_body\<lparr> body_status := Some ''rejected'' \<rparr>)) sample_db =
           (\<lparr> statusCode = 500,
              json = ErrorJson Errore_nell_aggiornamento_della_recensione \<rparr>, sample_db)
   \<and> registerRoutes PATCH_api_reviews_id sample_env
        (as_admin ''abc'' (empty_body\<lparr> body_status := Some ''rejected'' \<rparr>))
        (sample_db\<lparr> rejects_NaN := False \<rparr>) =
           (\<lparr> statusCode = 404, json = ErrorJson Recensione_non_trovata \<rparr>,
            sample_db\<lparr> rejects_NaN := False \<rparr>)"
proof -
  have p: "parseInt ''abc'' = None" by code_simp
  have a: "adminSession (as_admin ''abc'' (empty_body\<lparr> body_status := Some ''rejected'' \<rparr>)) = Some 1"
    by (simp add: as_admin_def)
  have b: "parseInt (params_id (as_admin ''abc'' (empty_body\<lparr> body_status := Some ''rejected'' \<rparr>))) = None"
    by (simp add: as_admin_def p)
  have r: "rejects_NaN sample_db"
    by (simp add: sample_db_def)
  from a b r patch_review_nan_id [OF a b, of sample_db sample_env]
    patch_review_nan_id [OF a b, of "sample_db\<lparr> rejects_NaN := False \<rparr>" sample_env]
  show ?thesis by simp
qed

text \<open>
  C5, as the code has it. An admin's \<^verbatim>\<open>PATCH /api/availability/:id\<close>, and likewise
  \<^verbatim>\<open>PATCH /api/availability/timeslots/:id\<close>, whose id is a number that is no row's id
  changes nothing. When the number lies in the range of the id column the answer is 200
  with an empty body (\<^verbatim>\<open>res.json(undefined)\<close>), not 404; when it lies outside, the store
  refuses it, the update throws and the answer is 500.
\<close>

theorem patch_availability_unknown_id:
  assumes "adminSession req = Some admin"
    and "parseInt (params_id req) = Some n"
  shows "(n \<notin> date_id ` set (availabilityDates d) \<and> - 2147483648 \<le> n \<and> n \<le> 2147483647 \<longrightarrow>
            registerRoutes PATCH_api_availability_id e req d =
              (\<lparr> statusCode = 200, json = Undefined \<rparr>, d))
       \<and> (n \<notin> slot_id ` set (availabilityTimeSlots d)
            \<and> - 2147483648 \<le> n \<and> n \<le> 2147483647 \<longrightarrow>
            registerRoutes PATCH_api_availability_timeslots_id e req d =
              (\<lparr> statusCode = 200, json = Undefined \<rparr>, d))
       \<and> (n \<notin> date_id ` set (availabilityDates d) \<and> (n < - 2147483648 \<or> 2147483647 < n) \<longrightarrow>
            registerRoutes PATCH_api_availability_id e req d =
              (\<lparr> statusCode = 500,
                 json = ErrorJson Errore_nell_aggiornamento_della_disponibilita \<rparr>, d))
       \<and> (n \<notin> slot_id ` set (availabilityTimeSlots d)
            \<and> (n < - 2147483648 \<or> 2147483647 < n) \<longrightarrow>
            registerRoutes PATCH_api_availability_timeslots_id e req d =
              (\<lparr> statusCode = 500,
                 json = ErrorJson Errore_nell_aggiornamento_dello_slot_orario \<rparr>, d))"
proof (intro conjI impI)
  assume h: "n \<notin> date_id ` set (availabilityDates d) \<and> - 2147483648 \<le> n \<and> n \<le> 2147483647"
  with assms(2)
  have "\<not> id_refused (rejects_NaN d) (map date_id (availabilityDates d))
          (parseInt (params_id req))"
    by (simp add: id_refused_Some)
  moreover from assms(2) h
  have "\<forall>r \<in> set (availabilityDates d). \<not> eq_id (date_id r) (parseInt (params_id req))"
    by (auto simp: eq_id_def)
  ultimately
  have "updateAvailabilityDate t (parseInt (params_id req)) b d = Inr (None, d)" for t b
    by (rule updateAvailabilityDate_no_match [rotated])
  then show "registerRoutes PATCH_api_availability_id e req d =
              (\<lparr> statusCode = 200, json = Undefined \<rparr>, d)"
    using assms(1) by (simp add: requireAdmin_passes patch_api_availability_id_def)
next
  assume h: "n \<notin> slot_id ` set (availabilityTimeSlots d)
      \<and> - 2147483648 \<le> n \<and> n \<le> 2147483647"
  with assms(2)
  have "\<not> id_refused (rejects_NaN d) (map slot_id (availabilityTimeSlots d))
          (parseInt (params_id req))"
    by (simp add: id_refused_Some)
  moreover from assms(2) h
  have "\<forall>r \<in> set (availabilityTimeSlots d). \<not> eq_id (slot_id r) (parseInt (params_id req))"
    by (auto simp: eq_id_def)
  ultimately
  have "updateAvailabilityTimeSlot t (parseInt (params_id req)) b d = Inr (None, d)" for t b
    by (rule updateAvailabilityTimeSlot_no_match [rotated])
  then show "registerRoutes PATCH_api_availability_timeslots_id e req d =
              (\<lparr> statusCode = 200, json = Undefined \<rparr>, d)"
    using assms(1) by (simp add: requireAdmin_passes patch_api_availability_timeslots_id_def)
next
  assume "n \<notin> date_id ` set (availabilityDates d) \<and> (n < - 2147483648 \<or> 2147483647 < n)"
  with assms(2)
  have "id_refused (rejects_NaN d) (map date_id (availabilityDates d))
          (parseInt (params_id req))"
    by (simp add: id_refused_Some)
  then have "updateAvailabilityDate t (parseInt (params_id req)) b d = Inl StoreError" for t b
    by (simp add: updateAvailabilityDate_def)
  then show "registerRoutes PATCH_api_availability_id e req d =
              (\<lparr> statusCode = 500,
                 json = ErrorJson Errore_nell_aggiornamento_della_disponibilita \<rparr>, d)"
    using assms(1) by (simp add: requireAdmin_passes patch_api_availability_id_def)
next
  assume "n \<notin> slot_id ` set (availabilityTimeSlots d)
      \<and> (n < - 2147483648 \<or> 2147483647 < n)"
  with assms(2)
  have "id_refused (rejects_NaN d) (map slot_id (availabilityTimeSlots d))
          (parseInt (params_id req))"
    by (simp add: id_refused_Some)
  then have "updateAvailabilityTimeSlot t (parseInt (params_id req)) b d = Inl StoreError"
    for t b
    by (simp add: updateAvailabilityTimeSlot_def)
  then show "registerRoutes PATCH_api_availability_timeslots_id e req d =
              (\<lparr> statusCode = 500,
                 json = ErrorJson Errore_nell_aggiornamento_dello_slot_orario \<rparr>, d)"
    using assms(1) by (simp add: requireAdmin_passes patch_api_availability_timeslots_id_def)
qed

text \<open>
  The claim as stated, 200 with an empty body for every id that matches no row, fails at
  the id \<^verbatim>\<open>2147483648\<close>: neither table of the sample store has it, and both routes answer
  500.
\<close>

theorem patch_availability_unknown_id_counterexample:
  "parseInt (params_id (as_admin ''2147483648'' (empty_body\<lparr> body_isAvailable := Some False \<rparr>)))
     = Some 2147483648
   \<and> 2147483648 \<notin> date_id ` set (availabilityDates sample_db)
   \<and> 2147483648 \<notin> slot_id ` set (availabilityTimeSlots sample_db)
   \<and> registerRoutes PATCH_api_availability_id sample_env
        (as_admin ''2147483648'' (empty_body\<lparr> body_isAvailable := Some False \<rparr>)) sample_db =
           (\<lparr> statusCode = 500,
              json = ErrorJson Errore_nell_aggiornamento_della_disponibilita \<rparr>, sample_db)
   \<and> registerRoutes PATCH_api_availability_timeslots_id sample_env
        (as_admin ''2147483648'' (empty_body\<lparr> body_isAvailable := Some False \<rparr>)) sample_db =
           (\<lparr> statusCode = 500,
              json = ErrorJson Errore_nell_aggiornamento_dello_slot_orario \<rparr>, sample_db)"
proof -
  have p: "parseInt ''2147483648'' = Some 2147483648" by code_simp
  have c: "2147483648 \<notin> date_id ` set (availabilityDates sample_db)"
    by (simp add: sample_db_def sample_dates_def)
  have c': "2147483648 \<notin> slot_id ` set (availabilityTimeSlots sample_db)"
    by (simp add: sample_db_def sample_slots_def)
  have 1: "registerRoutes PATCH_api_availability_id sample_env
        (as_admin ''2147483648'' (empty_body\<lparr> body_isAvailable := Some False \<rparr>)) sample_db =
           (\<lparr> statusCode = 500,
              json = ErrorJson Errore_nell_aggiornamento_della_disponibilita \<rparr>, sample_db)"
    using c
    by (simp add: requireAdmin_def as_admin_def patch_api_availability_id_def
        updateAvailabilityDate_def p id_refused_Some)
  have 2: "registerRoutes PATCH_api_availability_timeslots_id sample_env
        (as_admin ''2147483648'' (empty_body\<lparr> body_isAvailable := Some False \<rparr>)) sample_db =
           (\<lparr> statusCode = 500,
              json = ErrorJson Errore_nell_aggiornamento_dello_slot_orario \<rparr>, sample_db)"
    using c'
    by (simp add: requireAdmin_def as_admin_def patch_api_availability_timeslots_id_def
        updateAvailabilityTimeSlot_def p id_refused_Some)
  from c c' 1 2 show ?thesis by (simp add: as_admin_def p)
qed

theorem patch_availability_unknown_id_witness:
  "adminSession (as_admin ''42'' (empty_body\<lparr> body_isAvailable := Some False \<rparr>)) = Some 1
   \<and> parseInt (params_id (as_admin ''42'' (empty_body\<lparr> body_isAvailable := Some False \<rparr>))) = Some 42
   \<and> 42 \<notin> date_id ` set (availabilityDates sample_db)
   \<and> 42 \<notin> slot_id ` set (availabilityTimeSlots sample_db)
   \<and> registerRoutes PATCH_api_availability_id sample_env
        (as_admin ''42'' (empty_body\<lparr> body_isAvailable := Some False \<rparr>)) sample_db =
           (\<lparr> statusCode = 200, json = Undefined \<rparr>, sample_db)
   \<and> registerRoutes PATCH_api_availability_timeslots_id sample_env
        (as_admin ''42'' (empty_body\<lparr> body_isAvailable := Some False \<rparr>)) sample_db =
           (\<lparr> statusCode = 200, json = Undefined \<rparr>, sample_db)
   \<and> parseInt (params_id (as_admin ''-2147483649'' empty_body)) = Some (- 2147483649)
   \<and> - 2147483649 \<notin> date_id ` set (availabilityDates sample_db)
   \<and> - 2147483649 \<notin> slot_id ` set (availabilityTimeSlots sample_db)
   \<and> registerRoutes PATCH_api_availability_id sample_env
        (as_admin ''-2147483649'' empty_body) sample_db =
           (\<lparr> statusCode = 500,
              json = ErrorJson Errore_nell_aggiornamento_della_disponibilita \<rparr>, sample_db)
   \<and> registerRoutes PATCH_api_availability_timeslots_id sample_env
        (as_admin ''-2147483649'' empty_body) sample_db =
           (\<lparr> statusCode = 500,
              json = ErrorJson Errore_nell_aggiornamento_dello_slot_orario \<rparr>, sample_db)"
proof -
  have p: "parseInt ''42'' = Some 42" by code_simp
  have a: "adminSession (as_admin ''42'' (empty_body\<lparr> body_isAvailable := Some False \<rparr>)) = Some 1"
    by (simp add: as_admin_def)
  have b: "parseInt (params_id (as_admin ''42'' (empty_body\<lparr> body_isAvailable := Some False \<rparr>))) = Some 42"
    by (simp add: as_admin_def p)
  have c: "42 \<notin> date_id ` set (availabilityDates sample_db)"
    "- 2147483649 \<notin> date_id ` set (availabilityDates sample_db)"
    by (simp_all add: sample_db_def sample_dates_def)
  have c': "42 \<notin> slot_id ` set (availabilityTimeSlots sample_db)"
    "- 2147483649 \<notin> slot_id ` set (availabilityTimeSlots sample_db)"
    by (simp_all add: sample_db_def sample_slots_def)
  have p': "parseInt ''-2147483649'' = Some (- 2147483649)" by code_simp
  have a': "adminSession (as_admin ''-2147483649'' empty_body) = Some 1"
    by (simp add: as_admin_def)
  have b': "parseInt (params_id (as_admin ''-2147483649'' empty_body)) = Some (- 2147483649)"
    by (simp add: as_admin_def p')
  from a b c c' b' patch_availability_unknown_id [OF a b, of sample_db sample_env]
    patch_availability_unknown_id [OF a' b', of sample_db sample_env]
  show ?thesis by simp
qed

subsection \<open>Galleries by access code\<close>

lemma first_row_filter: "first_row (filter P xs) = find P xs"
  by (induction xs) (simp_all add: first_row_def)

lemma find_None_image: "c \<notin> f ` set xs \<Longrightarrow> find (\<lambda>x. f x = c) xs = None"
  by (auto simp: find_None_iff)

text \<open>
  C6. \<^verbatim>\<open>GET /api/galleries/access/:code\<close>: when no gallery has the code as its access code
  the answer is 404; otherwise, for the (first) gallery with that access code, the answer
  is 200 with the gallery's id, the access code, and exactly the photos whose
  \<open>galleryId\<close> is that id. The database is not changed.
\<close>

theorem gallery_by_access_code:
  "(params_code req \<notin> accessCode ` set (galleries d) \<longrightarrow>
      registerRoutes GET_api_galleries_access_code e req d =
        (\<lparr> statusCode = 404, json = ErrorJson Galleria_non_trovata \<rparr>, d))
   \<and> (\<forall>g. find (\<lambda>g. accessCode g = params_code req) (galleries d) = Some g \<longrightarrow>
      registerRoutes GET_api_galleries_access_code e req d =
        (\<lparr> statusCode = 200,
           json = GalleryJson
             \<lparr> res_id = gallery_id g, res_accessCode = params_code req,
               res_photos = filter (\<lambda>p. galleryId p = gallery_id g) (photos d) \<rparr> \<rparr>, d))"
proof (intro conjI impI allI)
  assume "params_code req \<notin> accessCode ` set (galleries d)"
  then have "find (\<lambda>g. accessCode g = params_code req) (galleries d) = None"
    by (rule find_None_image)
  then show "registerRoutes GET_api_galleries_access_code e req d =
        (\<lparr> statusCode = 404, json = ErrorJson Galleria_non_trovata \<rparr>, d)"
    by (simp add: get_api_galleries_access_code_def getGalleryByAccessCode_def first_row_filter)
next
  fix g
  assume f: "find (\<lambda>g. accessCode g = params_code req) (galleries d) = Some g"
  then have "accessCode g = params_code req"
    by (auto simp: find_Some_iff)
  with f show "registerRoutes GET_api_galleries_access_code e req d =
        (\<lparr> statusCode = 200,
           json = GalleryJson
             \<lparr> res_id = gallery_id g, res_accessCode = params_code req,
               res_photos = filter (\<lambda>p. galleryId p = gallery_id g) (photos d) \<rparr> \<rparr>, d)"
    by (simp add: get_api_galleries_access_code_def getGalleryByAccessCode_def first_row_filter
        getPhotosByGalleryId_def)
qed

theorem gallery_by_access_code_witness:
  "''nessuno'' \<notin> accessCode ` set (galleries sample_db)
   \<and> registerRoutes GET_api_galleries_access_code sample_env (with_code ''nessuno'') sample_db =
        (\<lparr> statusCode = 404, json = ErrorJson Galleria_non_trovata \<rparr>, sample_db)
   \<and> find (\<lambda>g. accessCode g = ''rossi2025'') (galleries sample_db) =
        Some \<lparr> gallery_id = 1, accessCode = ''rossi2025'' \<rparr>
   \<and> registerRoutes GET_api_galleries_access_code sample_env (with_code ''rossi2025'') sample_db =
        (\<lparr> statusCode = 200,
           json = GalleryJson
             \<lparr> res_id = 1, res_accessCode = ''rossi2025'',
               res_photos = [\<lparr> photo_id = 1, galleryId = 1, url = ''/p/1.jpg'' \<rparr>,
                             \<lparr> photo_id = 3, galleryId = 1, url = ''/p/3.jpg'' \<rparr>] \<rparr> \<rparr>, sample_db)"
proof -
  have a: "params_code (with_code ''nessuno'') \<notin> accessCode ` set (galleries sample_db)"
    by (simp add: with_code_def sample_db_def)
  have b: "find (\<lambda>g. accessCode g = params_code (with_code ''rossi2025'')) (galleries sample_db) =
        Some \<lparr> gallery_id = 1, accessCode = ''rossi2025'' \<rparr>"
    by (simp add: with_code_def sample_db_def)
  have c: "filter (\<lambda>p. galleryId p = 1) (photos sample_db) =
     [\<lparr> photo_id = 1, galleryId = 1, url = ''/p/1.jpg'' \<rparr>,
      \<lparr> photo_id = 3, galleryId = 1, url = ''/p/3.jpg'' \<rparr>]"
    by (simp add: sample_db_def)
  have pc: "params_code (with_code c) = c" for c
    by (simp add: with_code_def)
  from gallery_by_access_code [of "with_code ''nessuno''" sample_db sample_env] a
  have r1: "registerRoutes GET_api_galleries_access_code sample_env (with_code ''nessuno'') sample_db =
        (\<lparr> statusCode = 404, json = ErrorJson Galleria_non_trovata \<rparr>, sample_db)"
    by blast
  from gallery_by_access_code [of "with_code ''rossi2025''" sample_db sample_env] b
  have r2: "registerRoutes GET_api_galleries_access_code sample_env (with_code ''rossi2025'') sample_db =
        (\<lparr> statusCode = 200,
           json = GalleryJson
             \<lparr> res_id = 1, res_accessCode = ''rossi2025'',
               res_photos = filter (\<lambda>p. galleryId p = 1) (photos sample_db) \<rparr> \<rparr>, sample_db)"
    by (simp add: pc)
  from a b r1 r2 show ?thesis by (simp only: pc c) simp
qed

subsection \<open>Creating dates and time slots\<close>

text \<open>
  C7. For an admin's \<^verbatim>\<open>POST /api/availability\<close>: when the body's date is a valid date, the
  row created, returned with 201 and appended to the table, has \<open>isAvailable\<close> true,
  whatever the body says about \<open>isAvailable\<close>; with an invalid date nothing is created.
  For an admin's \<^verbatim>\<open>POST /api/availability/:id/timeslots\<close>: when the id is a number and
  both times are given, the slot created has the body's \<open>isAvailable\<close> when the body has
  one and true when it has none; otherwise nothing is created.
\<close>

theorem created_isAvailable:
  assumes "adminSession req = Some admin"
  shows "(\<forall>dt. new_Date e (body_date (req_body req)) = Some dt \<longrightarrow>
            registerRoutes POST_api_availability e req d =
              (\<lparr> statusCode = 201,
                 json = DateJson
                   \<lparr> date_id = availabilityDates_seq d, date = dt, date_isAvailable = True,
                     date_createdAt = now e, date_updatedAt = now e \<rparr> \<rparr>,
               d\<lparr> availabilityDates := availabilityDates d @
                     [\<lparr> date_id = availabilityDates_seq d, date = dt, date_isAvailable = True,
                        date_createdAt = now e, date_updatedAt = now e \<rparr>],
                  availabilityDates_seq := availabilityDates_seq d + 1 \<rparr>))
       \<and> (new_Date e (body_date (req_body req)) = None \<longrightarrow>
            registerRoutes POST_api_availability e req d =
              (\<lparr> statusCode = 500,
                 json = ErrorJson Errore_nella_creazione_della_disponibilita \<rparr>, d))
       \<and> (\<forall>n st en. parseInt (params_id req) = Some n
              \<and> body_startTime (req_body req) = Some st
              \<and> body_endTime (req_body req) = Some en \<longrightarrow>
            registerRoutes POST_api_availability_id_timeslots e req d =
              (\<lparr> statusCode = 201,
                 json = SlotJson
                   \<lparr> slot_id = availabilityTimeSlots_seq d, dateId = n, startTime = st,
                     endTime = en,
                     slot_isAvailable =
                       (case body_isAvailable (req_body req) of None \<Rightarrow> True | Some b \<Rightarrow> b),
                     slot_createdAt = now e, slot_updatedAt = now e \<rparr> \<rparr>,
               d\<lparr> availabilityTimeSlots := availabilityTimeSlots d @
                     [\<lparr> slot_id = availabilityTimeSlots_seq d, dateId = n, startTime = st,
                        endTime = en,
                        slot_isAvailable =
                          (case body_isAvailable (req_body req) of None \<Rightarrow> True | Some b \<Rightarrow> b),
                        slot_createdAt = now e, slot_updatedAt = now e \<rparr>],
                  availabilityTimeSlots_seq := availabilityTimeSlots_seq d + 1 \<rparr>))
       \<and> (parseInt (params_id req) = None \<or> body_startTime (req_body req) = None
              \<or> body_endTime (req_body req) = None \<longrightarrow>
            registerRoutes POST_api_availability_id_timeslots e req d =
              (\<lparr> statusCode = 500,
                 json = ErrorJson Errore_nella_creazione_dello_slot_orario \<rparr>, d))"
proof (intro conjI impI allI)
  fix dt
  assume "new_Date e (body_date (req_body req)) = Some dt"
  then show "registerRoutes POST_api_availability e req d =
              (\<lparr> statusCode = 201,
                 json = DateJson
                   \<lparr> date_id = availabilityDates_seq d, date = dt, date_isAvailable = True,
                     date_createdAt = now e, date_updatedAt = now e \<rparr> \<rparr>,
               d\<lparr> availabilityDates := availabilityDates d @
                     [\<lparr> date_id = availabilityDates_seq d, date = dt, date_isAvailable = True,
                        date_createdAt = now e, date_updatedAt = now e \<rparr>],
                  availabilityDates_seq := availabilityDates_seq d + 1 \<rparr>)"
    using assms
    by (simp add: requireAdmin_passes post_api_availability_def createAvailabilityDate_def Let_def)
next
  assume "new_Date e (body_date (req_body req)) = None"
  then show "registerRoutes POST_api_availability e req d =
              (\<lparr> statusCode = 500,
                 json = ErrorJson Errore_nella_creazione_della_disponibilita \<rparr>, d)"
    using assms
    by (simp add: requireAdmin_passes post_api_availability_def createAvailabilityDate_def Let_def)
next
  fix n st en
  assume "parseInt (params_id req) = Some n
              \<and> body_startTime (req_body req) = Some st
              \<and> body_endTime (req_body req) = Some en"
  then show "registerRoutes POST_api_availability_id_timeslots e req d =
              (\<lparr> statusCode = 201,
                 json = SlotJson
                   \<lparr> slot_id = availabilityTimeSlots_seq d, dateId = n, startTime = st,
                     endTime = en,
                     slot_isAvailable =
                       (case body_isAvailable (req_body req) of None \<Rightarrow> True | Some b \<Rightarrow> b),
                     slot_createdAt = now e, slot_updatedAt = now e \<rparr> \<rparr>,
               d\<lparr> availabilityTimeSlots := availabilityTimeSlots d @
                     [\<lparr> slot_id = availabilityTimeSlots_seq d, dateId = n, startTime = st,
                        endTime = en,
                        slot_isAvailable =
                          (case body_isAvailable (req_body req) of None \<Rightarrow> True | Some b \<Rightarrow> b),
                        slot_createdAt = now e, slot_updatedAt = now e \<rparr>],
                  availabilityTimeSlots_seq := availabilityTimeSlots_seq d + 1 \<rparr>)"
    using assms
    by (simp add: requireAdmin_passes post_api_availability_id_timeslots_def
        createAvailabilityTimeSlot_def Let_def)
next
  assume "parseInt (params_id req) = None \<or> body_startTime (req_body req) = None
              \<or> body_endTime (req_body req) = None"
  then show "registerRoutes POST_api_availability_id_timeslots e req d =
              (\<lparr> statusCode = 500,
                 json = ErrorJson Errore_nella_creazione_dello_slot_orario \<rparr>, d)"
    using assms
    by (auto simp: requireAdmin_passes post_api_availability_id_timeslots_def
        createAvailabilityTimeSlot_def Let_def split: option.splits)
qed

theorem created_isAvailable_witness:
  "adminSession (as_admin ''5'' date_body) = Some 1
   \<and> body_isAvailable (req_body (as_admin ''5'' date_body)) = Some False
   \<and> new_Date sample_env (body_date (req_body (as_admin ''5'' date_body))) = Some 1748736000000
   \<and> fst (registerRoutes POST_api_availability sample_env (as_admin ''5'' date_body) sample_db) =
       \<lparr> statusCode = 201,
         json = DateJson \<lparr> date_id = 5, date = 1748736000000, date_isAvailable = True,
                           date_createdAt = 1748772000000, date_updatedAt = 1748772000000 \<rparr> \<rparr>
   \<and> parseInt (params_id (as_admin ''5'' (slot_body None))) = Some 5
   \<and> fst (registerRoutes POST_api_availability_id_timeslots sample_env
            (as_admin ''5'' (slot_body None)) sample_db) =
       \<lparr> statusCode = 201,
         json = SlotJson \<lparr> slot_id = 4, dateId = 5, startTime = ''09:00'', endTime = ''10:00'',
                           slot_isAvailable = True,
                           slot_createdAt = 1748772000000, slot_updatedAt = 1748772000000 \<rparr> \<rparr>
   \<and> fst (registerRoutes POST_api_availability_id_timeslots sample_env
            (as_admin ''5'' (slot_body (Some False))) sample_db) =
       \<lparr> statusCode = 201,
         json = SlotJson \<lparr> slot_id = 4, dateId = 5, startTime = ''09:00'', endTime = ''10:00'',
                           slot_isAvailable = False,
                           slot_createdAt = 1748772000000, slot_updatedAt = 1748772000000 \<rparr> \<rparr>
   \<and> registerRoutes POST_api_availability sample_env (as_admin ''5'' empty_body) sample_db =
       (\<lparr> statusCode = 500, json = ErrorJson Errore_nella_creazione_della_disponibilita \<rparr>,
        sample_db)"
proof -
  have p: "parseInt ''5'' = Some 5" by code_simp
  have a: "adminSession (as_admin i b) = Some 1" for i b
    by (simp add: as_admin_def)
  have nd: "new_Date sample_env (body_date (req_body (as_admin ''5'' date_body))) = Some 1748736000000"
    by (simp add: new_Date_def as_admin_def date_body_def sample_env_def sample_parse_def)
  have nn: "new_Date sample_env (body_date (req_body (as_admin ''5'' empty_body))) = None"
    by (simp add: new_Date_def as_admin_def empty_body_def)
  have s: "parseInt (params_id (as_admin ''5'' (slot_body b))) = Some 5
      \<and> body_startTime (req_body (as_admin ''5'' (slot_body b))) = Some ''09:00''
      \<and> body_endTime (req_body (as_admin ''5'' (slot_body b))) = Some ''10:00''" for b
    by (simp add: as_admin_def slot_body_def p)
  have v: "body_isAvailable (req_body (as_admin ''5'' (slot_body b))) = b"
    "body_isAvailable (req_body (as_admin ''5'' date_body)) = Some False" for b
    by (simp_all add: as_admin_def slot_body_def date_body_def)
  have q: "availabilityDates_seq sample_db = 5" "availabilityTimeSlots_seq sample_db = 4"
    "now sample_env = 1748772000000"
    by (simp_all add: sample_db_def sample_env_def)
  note t = created_isAvailable [OF a, of sample_env _ _ sample_db]
  from t [of "''5''" date_body] nd
  have r1: "fst (registerRoutes POST_api_availability sample_env (as_admin ''5'' date_body) sample_db) =
       \<lparr> statusCode = 201,
         json = DateJson \<lparr> date_id = 5, date = 1748736000000, date_isAvailable = True,
                           date_createdAt = 1748772000000, date_updatedAt = 1748772000000 \<rparr> \<rparr>"
    by (simp add: q)
  from t [of "''5''" "slot_body None"] s [of None]
  have r2: "fst (registerRoutes POST_api_availability_id_timeslots sample_env
            (as_admin ''5'' (slot_body None)) sample_db) =
       \<lparr> statusCode = 201,
         json = SlotJson \<lparr> slot_id = 4, dateId = 5, startTime = ''09:00'', endTime = ''10:00'',
                           slot_isAvailable = True,
                           slot_createdAt = 1748772000000, slot_updatedAt = 1748772000000 \<rparr> \<rparr>"
    by (simp add: q v)
  from t [of "''5''" "slot_body (Some False)"] s [of "Some False"]
  have r3: "fst (registerRoutes POST_api_availability_id_timeslots sample_env
            (as_admin ''5'' (slot_body (Some False))) sample_db) =
       \<lparr> statusCode = 201,
         json = SlotJson \<lparr> slot_id = 4, dateId = 5, startTime = ''09:00'', endTime = ''10:00'',
                           slot_isAvailable = False,
                           slot_createdAt = 1748772000000, slot_updatedAt = 1748772000000 \<rparr> \<rparr>"
    by (simp add: q v)
  from t [of "''5''" empty_body] nn
  have r4: "registerRoutes POST_api_availability sample_env (as_admin ''5'' empty_body) sample_db =
       (\<lparr> statusCode = 500, json = ErrorJson Errore_nella_creazione_della_disponibilita \<rparr>,
        sample_db)"
    by blast
  from a v(2) nd s [of None] r1 r2 r3 r4 show ?thesis by blast
qed

subsection \<open>Patching a time slot twice\<close>

lemma first_row_map: "first_row (map g xs) = map_option g (first_row xs)"
  by (cases xs) (simp_all add: first_row_def)

lemma find_in_image:
  "n \<in> f ` set xs \<Longrightarrow> \<exists>r. find (\<lambda>x. f x = n) xs = Some r \<and> f r = n"
  by (induction xs) auto

lemma eq_id_Some: "eq_id col (Some n) = (col = n)"
  by (auto simp: eq_id_def)

lemma updateAvailabilityTimeSlot_existing:
  assumes "n \<in> slot_id ` set (availabilityTimeSlots d)"
  shows "\<exists>r. slot_id r = n \<and>
     updateAvailabilityTimeSlot t (Some n) b d =
       Inr (Some (set_slot b t r),
            d\<lparr> availabilityTimeSlots :=
                 map (\<lambda>r. if slot_id r = n then set_slot b t r else r) (availabilityTimeSlots d) \<rparr>)"
proof -
  from find_in_image [OF assms]
  obtain r where "find (\<lambda>x. slot_id x = n) (availabilityTimeSlots d) = Some r" and "slot_id r = n"
    by blast
  then show ?thesis
    using assms
    by (auto simp: updateAvailabilityTimeSlot_def eq_id_Some first_row_map first_row_filter
        id_refused_Some)
qed

lemma patch_timeslot_existing:
  assumes "adminSession req = Some admin"
    and "parseInt (params_id req) = Some n"
    and "n \<in> slot_id ` set (availabilityTimeSlots d)"
  shows "\<exists>r. slot_id r = n \<and>
     registerRoutes PATCH_api_availability_timeslots_id e req d =
       (\<lparr> statusCode = 200, json = SlotJson (set_slot (body_isAvailable (req_body req)) (now e) r) \<rparr>,
        d\<lparr> availabilityTimeSlots :=
             map (\<lambda>r. if slot_id r = n then set_slot (body_isAvailable (req_body req)) (now e) r else r)
               (availabilityTimeSlots d) \<rparr>)"
proof -
  from updateAvailabilityTimeSlot_existing [OF assms(3), of "now e" "body_isAvailable (req_body req)"]
  obtain r where "slot_id r = n" and
    "updateAvailabilityTimeSlot (now e) (Some n) (body_isAvailable (req_body req)) d =
       Inr (Some (set_slot (body_isAvailable (req_body req)) (now e) r),
            d\<lparr> availabilityTimeSlots :=
                 map (\<lambda>r. if slot_id r = n then set_slot (body_isAvailable (req_body req)) (now e) r else r) (availabilityTimeSlots d) \<rparr>)"
    by blast
  then show ?thesis
    using assms(1,2)
    by (auto simp: requireAdmin_passes patch_api_availability_timeslots_id_def)
qed

lemma set_slot_id [simp]: "slot_id (set_slot b t r) = slot_id r"
  by (simp add: set_slot_def)

lemma set_slot_twice:
  "set_slot (Some b) t2 (set_slot (Some b) t1 r) = (set_slot (Some b) t1 r)\<lparr> slot_updatedAt := t2 \<rparr>"
  by (simp add: set_slot_def)

text \<open>
  C8, as the code has it. For an existing time slot id and a boolean \<open>b\<close>, an admin's
  \<^verbatim>\<open>PATCH /api/availability/timeslots/:id\<close> with \<open>isAvailable = b\<close>, issued a second time,
  succeeds with status 200 and the slot, and leaves the database as the first request left
  it except for the \<open>updatedAt\<close> of that slot, which becomes the clock reading of the second
  request; the final database is the one a single such request at that later reading gives.
\<close>

theorem patch_timeslot_twice:
  assumes "adminSession req = Some admin"
    and "parseInt (params_id req) = Some n"
    and "n \<in> slot_id ` set (availabilityTimeSlots d)"
    and "body_isAvailable (req_body req) = Some b"
  shows "\<exists>res1 d1 res2 d2 slot.
           registerRoutes PATCH_api_availability_timeslots_id e1 req d = (res1, d1)
         \<and> registerRoutes PATCH_api_availability_timeslots_id e2 req d1 = (res2, d2)
         \<and> res2 = \<lparr> statusCode = 200, json = SlotJson slot \<rparr>
         \<and> slot_id slot = n \<and> slot_isAvailable slot = b \<and> slot_updatedAt slot = now e2
         \<and> d2 = d1\<lparr> availabilityTimeSlots :=
                      map (\<lambda>s. if slot_id s = n then s\<lparr> slot_updatedAt := now e2 \<rparr> else s)
                        (availabilityTimeSlots d1) \<rparr>
         \<and> d2 = snd (registerRoutes PATCH_api_availability_timeslots_id e2 req d)"
proof -
  let ?R = "registerRoutes PATCH_api_availability_timeslots_id"
  let ?f = "\<lambda>t r. if slot_id r = n then set_slot (Some b) t r else r"
  let ?d1 = "d\<lparr> availabilityTimeSlots := map (?f (now e1)) (availabilityTimeSlots d) \<rparr>"
  from patch_timeslot_existing [OF assms(1-3), of e1] assms(4)
  obtain r1 where 1: "?R e1 req d = (\<lparr> statusCode = 200, json = SlotJson (set_slot (Some b) (now e1) r1) \<rparr>, ?d1)"
    by auto
  have "map slot_id (map (?f (now e1)) (availabilityTimeSlots d)) = map slot_id (availabilityTimeSlots d)"
    by simp
  then have "slot_id ` set (map (?f (now e1)) (availabilityTimeSlots d)) = slot_id ` set (availabilityTimeSlots d)"
    by (metis list.set_map)
  with assms(3) have "n \<in> slot_id ` set (availabilityTimeSlots ?d1)"
    by simp
  from patch_timeslot_existing [OF assms(1,2) this, of e2] assms(4)
  obtain r2 where 2: "slot_id r2 = n"
    "?R e2 req ?d1 = (\<lparr> statusCode = 200, json = SlotJson (set_slot (Some b) (now e2) r2) \<rparr>,
        ?d1\<lparr> availabilityTimeSlots := map (?f (now e2)) (availabilityTimeSlots ?d1) \<rparr>)"
    by auto
  have "?f (now e2) (?f (now e1) r) =
        (if slot_id (?f (now e1) r) = n then (?f (now e1) r)\<lparr> slot_updatedAt := now e2 \<rparr> else ?f (now e1) r)" for r
    by (simp add: set_slot_twice)
  then have 3: "map (?f (now e2)) (availabilityTimeSlots ?d1) =
     map (\<lambda>s. if slot_id s = n then s\<lparr> slot_updatedAt := now e2 \<rparr> else s) (availabilityTimeSlots ?d1)"
    by (simp add: set_slot_def)
  have 4: "slot_isAvailable (set_slot (Some b) (now e2) r2) = b"
     "slot_updatedAt (set_slot (Some b) (now e2) r2) = now e2"
    by (simp_all add: set_slot_def)
  have 5: "slot_id (set_slot (Some b) (now e2) r2) = n"
    using 2(1) by simp
  from patch_timeslot_existing [OF assms(1-3), of e2] assms(4)
  have 6: "snd (?R e2 req d) =
      d\<lparr> availabilityTimeSlots := map (?f (now e2)) (availabilityTimeSlots d) \<rparr>"
    by auto
  have "?f (now e2) (?f (now e1) r) = ?f (now e2) r" for r
    by (simp add: set_slot_def)
  then have 7: "map (?f (now e2)) (availabilityTimeSlots ?d1) =
      map (?f (now e2)) (availabilityTimeSlots d)"
    by simp
  show ?thesis
  proof (intro exI conjI)
    show "?R e1 req d = (\<lparr> statusCode = 200, json = SlotJson (set_slot (Some b) (now e1) r1) \<rparr>, ?d1)"
      by (rule 1)
    show "?R e2 req ?d1 = (\<lparr> statusCode = 200, json = SlotJson (set_slot (Some b) (now e2) r2) \<rparr>,
        ?d1\<lparr> availabilityTimeSlots := map (?f (now e2)) (availabilityTimeSlots ?d1) \<rparr>)"
      by (rule 2(2))
    show "\<lparr> statusCode = 200, json = SlotJson (set_slot (Some b) (now e2) r2) \<rparr> =
          \<lparr> statusCode = 200, json = SlotJson (set_slot (Some b) (now e2) r2) \<rparr>"
      by (rule refl)
    show "slot_id (set_slot (Some b) (now e2) r2) = n" by (rule 5)
    show "slot_isAvailable (set_slot (Some b) (now e2) r2) = b" by (rule 4(1))
    show "slot_updatedAt (set_slot (Some b) (now e2) r2) = now e2" by (rule 4(2))
    show "?d1\<lparr> availabilityTimeSlots := map (?f (now e2)) (availabilityTimeSlots ?d1) \<rparr> =
          ?d1\<lparr> availabilityTimeSlots :=
                      map (\<lambda>s. if slot_id s = n then s\<lparr> slot_updatedAt := now e2 \<rparr> else s)
                        (availabilityTimeSlots ?d1) \<rparr>"
      by (simp only: 3)
    show "?d1\<lparr> availabilityTimeSlots := map (?f (now e2)) (availabilityTimeSlots ?d1) \<rparr> =
          snd (?R e2 req d)"
      by (simp only: 6 7) simp
  qed
qed

text \<open>
  The claim as stated, that the final state after two requests is the state after one,
  fails when the clock has moved between them: on the sample store, five minutes apart,
  the second request succeeds and the two states differ (in \<open>updatedAt\<close> of slot 1).
\<close>

lemma sample_patch_once:
  "registerRoutes PATCH_api_availability_timeslots_id sample_env
     (as_admin ''1'' (empty_body\<lparr> body_isAvailable := Some False \<rparr>)) sample_db =
   (\<lparr> statusCode = 200,
      json = SlotJson ((sample_slots ! 0)\<lparr> slot_isAvailable := False,
                                          slot_updatedAt := 1748772000000 \<rparr>) \<rparr>,
    sample_db\<lparr> availabilityTimeSlots :=
      [(sample_slots ! 0)\<lparr> slot_isAvailable := False, slot_updatedAt := 1748772000000 \<rparr>,
       sample_slots ! 1, sample_slots ! 2] \<rparr>)"
proof -
  have p: "parseInt ''1'' = Some 1" by code_simp
  show ?thesis
    by (simp add: requireAdmin_def as_admin_def patch_api_availability_timeslots_id_def p
        updateAvailabilityTimeSlot_def eq_id_Some first_row_def set_slot_def empty_body_def
        id_refused_Some sample_db_def sample_slots_def sample_env_def)
qed

lemma sample_patch_twice:
  "registerRoutes PATCH_api_availability_timeslots_id later_env
     (as_admin ''1'' (empty_body\<lparr> body_isAvailable := Some False \<rparr>))
     (sample_db\<lparr> availabilityTimeSlots :=
      [(sample_slots ! 0)\<lparr> slot_isAvailable := False, slot_updatedAt := 1748772000000 \<rparr>,
       sample_slots ! 1, sample_slots ! 2] \<rparr>) =
   (\<lparr> statusCode = 200,
      json = SlotJson ((sample_slots ! 0)\<lparr> slot_isAvailable := False,
                                          slot_updatedAt := 1748772300000 \<rparr>) \<rparr>,
    sample_db\<lparr> availabilityTimeSlots :=
      [(sample_slots ! 0)\<lparr> slot_isAvailable := False, slot_updatedAt := 1748772300000 \<rparr>,
       sample_slots ! 1, sample_slots ! 2] \<rparr>)"
proof -
  have p: "parseInt ''1'' = Some 1" by code_simp
  show ?thesis
    by (simp add: requireAdmin_def as_admin_def patch_api_availability_timeslots_id_def p
        updateAvailabilityTimeSlot_def eq_id_Some first_row_def set_slot_def empty_body_def
        id_refused_Some sample_db_def sample_slots_def later_env_def)
qed

theorem patch_timeslot_twice_counterexample:
  "1 \<in> slot_id ` set (availabilityTimeSlots sample_db)
   \<and> statusCode (fst (registerRoutes PATCH_api_availability_timeslots_id later_env
        (as_admin ''1'' (empty_body\<lparr> body_isAvailable := Some False \<rparr>))
        (snd (registerRoutes PATCH_api_availability_timeslots_id sample_env
          (as_admin ''1'' (empty_body\<lparr> body_isAvailable := Some False \<rparr>)) sample_db)))) = 200
   \<and> snd (registerRoutes PATCH_api_availability_timeslots_id later_env
        (as_admin ''1'' (empty_body\<lparr> body_isAvailable := Some False \<rparr>))
        (snd (registerRoutes PATCH_api_availability_timeslots_id sample_env
          (as_admin ''1'' (empty_body\<lparr> body_isAvailable := Some False \<rparr>)) sample_db)))
     \<noteq> snd (registerRoutes PATCH_api_availability_timeslots_id sample_env
          (as_admin ''1'' (empty_body\<lparr> body_isAvailable := Some False \<rparr>)) sample_db)"
proof -
  let ?A = "(sample_slots ! 0)\<lparr> slot_isAvailable := False, slot_updatedAt := 1748772300000 \<rparr>"
  let ?B = "(sample_slots ! 0)\<lparr> slot_isAvailable := False, slot_updatedAt := 1748772000000 \<rparr>"
  have ne0: "?A \<noteq> ?B"
  proof
    assume "?A = ?B"
    then have "slot_updatedAt ?A = slot_updatedAt ?B" by (rule arg_cong)
    then show False by simp
  qed
  have ne: "sample_db\<lparr> availabilityTimeSlots := [?A, sample_slots ! 1, sample_slots ! 2] \<rparr> \<noteq>
    sample_db\<lparr> availabilityTimeSlots := [?B, sample_slots ! 1, sample_slots ! 2] \<rparr>"
  proof
    assume "sample_db\<lparr> availabilityTimeSlots := [?A, sample_slots ! 1, sample_slots ! 2] \<rparr> =
      sample_db\<lparr> availabilityTimeSlots := [?B, sample_slots ! 1, sample_slots ! 2] \<rparr>"
    then have "availabilityTimeSlots
        (sample_db\<lparr> availabilityTimeSlots := [?A, sample_slots ! 1, sample_slots ! 2] \<rparr>) =
      availabilityTimeSlots
        (sample_db\<lparr> availabilityTimeSlots := [?B, sample_slots ! 1, sample_slots ! 2] \<rparr>)"
      by (rule arg_cong)
    then have "?A = ?B" by simp
    with ne0 show False by contradiction
  qed
  have "1 \<in> slot_id ` set (availabilityTimeSlots sample_db)"
    by (simp add: sample_db_def sample_slots_def)
  with ne show ?thesis
    by (simp only: sample_patch_once sample_patch_twice snd_conv fst_conv) simp
qed

theorem patch_timeslot_twice_witness:
  "adminSession (as_admin ''1'' (empty_body\<lparr> body_isAvailable := Some False \<rparr>)) = Some 1
   \<and> parseInt (params_id (as_admin ''1'' (empty_body\<lparr> body_isAvailable := Some False \<rparr>))) = Some 1
   \<and> 1 \<in> slot_id ` set (availabilityTimeSlots sample_db)
   \<and> body_isAvailable (req_body (as_admin ''1'' (empty_body\<lparr> body_isAvailable := Some False \<rparr>)))
       = Some False
   \<and> (\<exists>d1 d2 slot.
         snd (registerRoutes PATCH_api_availability_timeslots_id sample_env
           (as_admin ''1'' (empty_body\<lparr> body_isAvailable := Some False \<rparr>)) sample_db) = d1
       \<and> registerRoutes PATCH_api_availability_timeslots_id later_env
           (as_admin ''1'' (empty_body\<lparr> body_isAvailable := Some False \<rparr>)) d1 =
           (\<lparr> statusCode = 200, json = SlotJson slot \<rparr>, d2)
       \<and> slot_id slot = 1 \<and> slot_isAvailable slot = False
       \<and> slot_updatedAt slot = 1748772300000
       \<and> d2 = d1\<lparr> availabilityTimeSlots :=
                    map (\<lambda>s. if slot_id s = 1 then s\<lparr> slot_updatedAt := 1748772300000 \<rparr> else s)
                      (availabilityTimeSlots d1) \<rparr>
       \<and> d2 = snd (registerRoutes PATCH_api_availability_timeslots_id later_env
           (as_admin ''1'' (empty_body\<lparr> body_isAvailable := Some False \<rparr>)) sample_db))"
proof -
  have p: "parseInt ''1'' = Some 1" by code_simp
  have a: "adminSession (as_admin ''1'' (empty_body\<lparr> body_isAvailable := Some False \<rparr>)) = Some 1"
    by (simp add: as_admin_def)
  have b: "parseInt (params_id (as_admin ''1'' (empty_body\<lparr> body_isAvailable := Some False \<rparr>))) = Some 1"
    by (simp add: as_admin_def p)
  have c: "1 \<in> slot_id ` set (availabilityTimeSlots sample_db)"
    by (simp add: sample_db_def sample_slots_def)
  have v: "body_isAvailable (req_body (as_admin ''1'' (empty_body\<lparr> body_isAvailable := Some False \<rparr>)))
       = Some False"
    by (simp add: as_admin_def)
  have l: "now later_env = 1748772300000"
    by (simp add: later_env_def)
  from patch_timeslot_twice [OF a b c v, of sample_env later_env]
  have "\<exists>d1 d2 slot.
         snd (registerRoutes PATCH_api_availability_timeslots_id sample_env
           (as_admin ''1'' (empty_body\<lparr> body_isAvailable := Some False \<rparr>)) sample_db) = d1
       \<and> registerRoutes PATCH_api_availability_timeslots_id later_env
           (as_admin ''1'' (empty_body\<lparr> body_isAvailable := Some False \<rparr>)) d1 =
           (\<lparr> statusCode = 200, json = SlotJson slot \<rparr>, d2)
       \<and> slot_id slot = 1 \<and> slot_isAvailable slot = False
       \<and> slot_updatedAt slot = 1748772300000
       \<and> d2 = d1\<lparr> availabilityTimeSlots :=
                    map (\<lambda>s. if slot_id s = 1 then s\<lparr> slot_updatedAt := 1748772300000 \<rparr> else s)
                      (availabilityTimeSlots d1) \<rparr>
       \<and> d2 = snd (registerRoutes PATCH_api_availability_timeslots_id later_env
           (as_admin ''1'' (empty_body\<lparr> body_isAvailable := Some False \<rparr>)) sample_db)"
    unfolding l by (elim exE conjE) (simp only: snd_conv, blast)
  with a b c v show ?thesis by blast
qed

subsection \<open>Reviews\<close>

text \<open>
  The public list is exactly the approved reviews, in table order; a review is created
  with the status the body names, and with \<^verbatim>\<open>pending\<close> when it names none.
\<close>

lemma get_api_reviews_approved:
  "registerRoutes GET_api_reviews e req d =
     (\<lparr> statusCode = 200,
        json = ReviewsJson (filter (\<lambda>r. status r = ''approved'') (reviews d)) \<rparr>, d)"
  by (simp add: get_api_reviews_def getApprovedReviews_def)

lemma post_api_reviews_created:
  assumes "body_author (req_body req) = Some a" and "body_content (req_body req) = Some c"
  shows "registerRoutes POST_api_reviews e req d =
     (\<lparr> statusCode = 201,
        json = ReviewJson
          \<lparr> review_id = reviews_seq d, author = a, content = c,
            modifiedContent = body_modifiedContent (req_body req),
            status = (case body_status (req_body req) of None \<Rightarrow> ''pending'' | Some s \<Rightarrow> s),
            review_createdAt = now e, review_updatedAt = now e \<rparr> \<rparr>,
      d\<lparr> reviews := reviews d @
           [\<lparr> review_id = reviews_seq d, author = a, content = c,
              modifiedContent = body_modifiedContent (req_body req),
              status = (case body_status (req_body req) of None \<Rightarrow> ''pending'' | Some s \<Rightarrow> s),
              review_createdAt = now e, review_updatedAt = now e \<rparr>],
         reviews_seq := reviews_seq d + 1 \<rparr>)"
  using assms by (simp add: post_api_reviews_def createReview_def Let_def)

text \<open>
  A review posted without a status is pending, and is not among the approved reviews
  that the public list returns.
\<close>

lemma post_review_default_pending:
  assumes "body_author (req_body req) = Some a" and "body_content (req_body req) = Some c"
    and "body_status (req_body req) = None"
  shows "\<exists>rv d'. registerRoutes POST_api_reviews e req d =
            (\<lparr> statusCode = 201, json = ReviewJson rv \<rparr>, d')
          \<and> status rv = ''pending''
          \<and> fst (registerRoutes GET_api_reviews e' req' d') =
              fst (registerRoutes GET_api_reviews e' req' d)"
  using assms
  by (simp add: post_api_reviews_created get_api_reviews_approved del: registerRoutes.simps)

text \<open>
  No route but \<^verbatim>\<open>PATCH /api/reviews/:id\<close> touches a review already stored: the others
  leave the table as it was or append to it.
\<close>

lemma reviews_kept_unless_patched:
  assumes "r \<noteq> PATCH_api_reviews_id"
  shows "\<exists>new. reviews (snd (registerRoutes r e req d)) = reviews d @ new"
proof (cases r)
  case POST_api_reviews
  then show ?thesis
    by (auto simp: post_api_reviews_def createReview_def Let_def split: option.splits)
next
  case PATCH_api_reviews_id
  with assms show ?thesis by contradiction
next
  case GET_api_reviews
  then show ?thesis by (simp add: get_api_reviews_def getApprovedReviews_def)
next
  case GET_api_admin_stats
  then show ?thesis
    by (simp add: requireAdmin_def get_api_admin_stats_def getAdminStats_def split: option.splits)
next
  case GET_api_reviews_pending
  then show ?thesis
    by (simp add: requireAdmin_def get_api_reviews_pending_def getPendingReviews_def
        split: option.splits)
next
  case GET_api_availability
  then show ?thesis
    by (simp add: get_api_availability_def split: sum.splits)
next
  case POST_api_availability
  then show ?thesis
    by (auto simp: requireAdmin_def post_api_availability_def createAvailabilityDate_def Let_def
        split: option.splits)
next
  case PATCH_api_availability_id
  then show ?thesis
    by (simp add: requireAdmin_def patch_api_availability_id_def updateAvailabilityDate_def
        split: option.splits)
next
  case POST_api_availability_id_timeslots
  then show ?thesis
    by (auto simp: requireAdmin_def post_api_availability_id_timeslots_def
        createAvailabilityTimeSlot_def Let_def split: option.splits)
next
  case PATCH_api_availability_timeslots_id
  then show ?thesis
    by (simp add: requireAdmin_def patch_api_availability_timeslots_id_def
        updateAvailabilityTimeSlot_def split: option.splits)
next
  case GET_api_galleries_access_code
  then show ?thesis
    by (simp add: get_api_galleries_access_code_def getGalleryByAccessCode_def
        getPhotosByGalleryId_def split: option.splits)
qed

text \<open>
  C9. \<^verbatim>\<open>POST /api/reviews\<close> hands the body to \<^verbatim>\<open>createReview\<close> as it is: a body that names a
  status gets a review with that status, and when the status is \<^verbatim>\<open>approved\<close> the review
  is in the answer of the next \<^verbatim>\<open>GET /api/reviews\<close>. Neither route looks at the session.
\<close>

theorem post_review_client_status:
  assumes "body_author (req_body req) = Some a" and "body_content (req_body req) = Some c"
    and "body_status (req_body req) = Some s"
  shows "\<exists>rv d'. registerRoutes POST_api_reviews e req d =
            (\<lparr> statusCode = 201, json = ReviewJson rv \<rparr>, d')
          \<and> author rv = a \<and> content rv = c \<and> status rv = s
          \<and> modifiedContent rv = body_modifiedContent (req_body req)
          \<and> reviews d' = reviews d @ [rv]
          \<and> (s = ''approved'' \<longrightarrow>
               (\<exists>rs. registerRoutes GET_api_reviews e' req' d' =
                       (\<lparr> statusCode = 200, json = ReviewsJson rs \<rparr>, d')
                     \<and> rv \<in> set rs))"
  using assms
  by (simp add: post_api_reviews_created get_api_reviews_approved del: registerRoutes.simps)

theorem post_review_client_status_witness:
  "adminSession (anonymous [] (review_body ''Eva'' (Some ''approved''))) = None
   \<and> body_status (req_body (anonymous [] (review_body ''Eva'' (Some ''approved'')))) = Some ''approved''
   \<and> (\<exists>rv d'. registerRoutes POST_api_reviews sample_env
                 (anonymous [] (review_body ''Eva'' (Some ''approved''))) sample_db =
            (\<lparr> statusCode = 201, json = ReviewJson rv \<rparr>, d')
          \<and> author rv = ''Eva'' \<and> status rv = ''approved''
          \<and> (\<exists>rs. registerRoutes GET_api_reviews later_env (anonymous [] empty_body) d' =
                       (\<lparr> statusCode = 200, json = ReviewsJson rs \<rparr>, d')
                     \<and> rv \<in> set rs))"
proof -
  have a: "body_author (req_body (anonymous [] (review_body ''Eva'' (Some ''approved'')))) = Some ''Eva''"
    and c: "body_content (req_body (anonymous [] (review_body ''Eva'' (Some ''approved'')))) = Some ''Ottimo servizio''"
    and s: "body_status (req_body (anonymous [] (review_body ''Eva'' (Some ''approved'')))) = Some ''approved''"
    and n: "adminSession (anonymous [] (review_body ''Eva'' (Some ''approved''))) = None"
    by (simp_all add: anonymous_def review_body_def)
  from post_review_client_status [OF a c s, of sample_env sample_db later_env "anonymous [] empty_body"]
  have "\<exists>rv d'. registerRoutes POST_api_reviews sample_env
                 (anonymous [] (review_body ''Eva'' (Some ''approved''))) sample_db =
            (\<lparr> statusCode = 201, json = ReviewJson rv \<rparr>, d')
          \<and> author rv = ''Eva'' \<and> status rv = ''approved''
          \<and> (\<exists>rs. registerRoutes GET_api_reviews later_env (anonymous [] empty_body) d' =
                       (\<lparr> statusCode = 200, json = ReviewsJson rs \<rparr>, d')
                     \<and> rv \<in> set rs)"
    by (elim exE conjE) blast
  with n s show ?thesis by blast
qed

text \<open>
  C3, at an input where the code departs from it. An anonymous \<^verbatim>\<open>POST /api/reviews\<close> whose
  body names the status \<^verbatim>\<open>approved\<close> creates, on the sample store, review 4 with that
  status, not \<^verbatim>\<open>pending\<close>, and the public list that follows returns it beside review 1;
  no admin has acted.
\<close>

theorem post_review_approved_by_client:
  "adminSession (anonymous [] (review_body ''Dario'' (Some ''approved''))) = None
   \<and> registerRoutes POST_api_reviews sample_env
       (anonymous [] (review_body ''Dario'' (Some ''approved''))) sample_db =
       (\<lparr> statusCode = 201,
          json = ReviewJson
            \<lparr> review_id = 4, author = ''Dario'', content = ''Ottimo servizio'',
              modifiedContent = None, status = ''approved'',
              review_createdAt = 1748772000000, review_updatedAt = 1748772000000 \<rparr> \<rparr>,
        sample_db\<lparr> reviews := sample_reviews @
            [\<lparr> review_id = 4, author = ''Dario'', content = ''Ottimo servizio'',
               modifiedContent = None, status = ''approved'',
               review_createdAt = 1748772000000, review_updatedAt = 1748772000000 \<rparr>],
          reviews_seq := 5 \<rparr>)
   \<and> registerRoutes GET_api_reviews later_env (anonymous [] empty_body)
        (sample_db\<lparr> reviews := sample_reviews @
            [\<lparr> review_id = 4, author = ''Dario'', content = ''Ottimo servizio'',
               modifiedContent = None, status = ''approved'',
               review_createdAt = 1748772000000, review_updatedAt = 1748772000000 \<rparr>],
          reviews_seq := 5 \<rparr>) =
       (\<lparr> statusCode = 200,
          json = ReviewsJson
            [sample_reviews ! 0,
             \<lparr> review_id = 4, author = ''Dario'', content = ''Ottimo servizio'',
               modifiedContent = None, status = ''approved'',
               review_createdAt = 1748772000000, review_updatedAt = 1748772000000 \<rparr>] \<rparr>,
        sample_db\<lparr> reviews := sample_reviews @
            [\<lparr> review_id = 4, author = ''Dario'', content = ''Ottimo servizio'',
               modifiedContent = None, status = ''approved'',
               review_createdAt = 1748772000000, review_updatedAt = 1748772000000 \<rparr>],
          reviews_seq := 5 \<rparr>)"
  by (simp add: post_api_reviews_def createReview_def Let_def get_api_reviews_def
      getApprovedReviews_def anonymous_def review_body_def empty_body_def sample_env_def
      sample_db_def sample_reviews_def)

end
